theory Spec2Isabelle
  imports Complex_Main "HOL-Library.Multiset" "HOL-Library.List_Lexorder" "HOL-Library.Char_ord"
    "HOL-Library.Product_Lexorder"
begin

section \<open>Errors and log records\<close>

text \<open>
  Every exception the modelled code can raise is a value: a missing dictionary key, a failure
  reported by the database engine, the error of \<open>raise_for_status\<close> (carrying the status of
  the response), an exception of the HTTP transport, the read of a local variable that was
  never assigned, and a response body that is not JSON.
\<close>

datatype error =
    KeyError string
  | OperationalError
  | HTTPStatusError nat
  | TransportError
  | UnboundLocalError
  | JSONDecodeError

datatype log_level = WARNING | ERROR

section \<open>Geospatial engine\<close>

text \<open>
  Python floats are idealised as real numbers throughout: \<open>math.sin\<close>, \<open>math.cos\<close>,
  \<open>math.asin\<close>, \<open>math.sqrt\<close> are the real functions, and arithmetic is exact.
\<close>

definition bearing_diff :: "real \<Rightarrow> real \<Rightarrow> real" where
  \<comment> \<open>\<open>TussamService._bearing_diff\<close>: \<open>diff = abs(b1 - b2); return min(diff, 360 - diff)\<close>\<close>
  "bearing_diff bearing1 bearing2 =
     (let diff = \<bar>bearing1 - bearing2\<bar> in min diff (360 - diff))"

definition radians :: "real \<Rightarrow> real" where
  "radians d = d * pi / 180"

definition degrees :: "real \<Rightarrow> real" where
  "degrees r = r * 180 / pi"

definition atan2 :: "real \<Rightarrow> real \<Rightarrow> real" where
  \<comment> \<open>\<open>math.atan2(y, x)\<close>: the angle of the point \<open>(x, y)\<close>, in \<open>(-pi, pi]\<close>\<close>
  "atan2 y x =
     (if 0 < x then arctan (y / x)
      else if x < 0 \<and> 0 \<le> y then arctan (y / x) + pi
      else if x < 0 \<and> y < 0 then arctan (y / x) - pi
      else if 0 < y then pi / 2
      else if y < 0 then - (pi / 2)
      else 0)"

definition py_mod :: "real \<Rightarrow> real \<Rightarrow> real" where
  \<comment> \<open>\<open>x % m\<close> on floats: the remainder has the sign of \<open>m\<close>\<close>
  "py_mod x m = x - m * of_int \<lfloor>x / m\<rfloor>"

definition haversine :: "real \<Rightarrow> real \<Rightarrow> real \<Rightarrow> real \<Rightarrow> real" where
  "haversine lat1 lon1 lat2 lon2 =
     (let R = 6371000;
          phi1 = radians lat1; phi2 = radians lat2;
          dphi = radians (lat2 - lat1);
          dlambda = radians (lon2 - lon1);
          a = (sin (dphi / 2))\<^sup>2 + cos phi1 * cos phi2 * (sin (dlambda / 2))\<^sup>2
      in 2 * R * arcsin (sqrt a))"

definition calculate_bearing :: "real \<Rightarrow> real \<Rightarrow> real \<Rightarrow> real \<Rightarrow> real" where
  "calculate_bearing lat1 lon1 lat2 lon2 =
     (let lat1_r = radians lat1; lat2_r = radians lat2;
          dlon_r = radians (lon2 - lon1);
          x = sin dlon_r * cos lat2_r;
          y = cos lat1_r * sin lat2_r - sin lat1_r * cos lat2_r * cos dlon_r;
          bearing = degrees (atan2 x y)
      in py_mod (bearing + 360) 360)"

section \<open>Rounding and time\<close>

text \<open>
  \<open>round(x)\<close> on a float is the nearest integer, a tie going to the even neighbour;
  \<open>round(x, n)\<close> rounds at the \<open>n\<close>-th decimal in the same way. Timestamps are
  microseconds (the resolution of \<open>datetime\<close>), and a \<open>timedelta\<close> is a number of them.
\<close>

definition py_round :: "real \<Rightarrow> int" where
  "py_round x =
     (let f = \<lfloor>x\<rfloor>; r = x - of_int f
      in if r < 1/2 then f else if 1/2 < r then f + 1 else if even f then f else f + 1)"

definition py_round_ndigits :: "real \<Rightarrow> nat \<Rightarrow> real" where
  "py_round_ndigits x ndigits = of_int (py_round (x * 10 ^ ndigits)) / 10 ^ ndigits"

definition timedelta_minutes :: "int \<Rightarrow> int" where
  "timedelta_minutes m = m * 60000000"

definition timedelta_days :: "int \<Rightarrow> int" where
  "timedelta_days d = d * 86400000000"

definition timedelta_seconds :: "int \<Rightarrow> int" where
  "timedelta_seconds s = s * 1000000"

definition CACHE_TTL_MINUTES :: int where
  "CACHE_TTL_MINUTES = 1"

definition CACHE_DIRECCIONES_TTL_DIAS :: int where
  "CACHE_DIRECCIONES_TTL_DIAS = 30"

section \<open>The two caches\<close>

text \<open>
  Tables \<open>tiempos_cache\<close> (primary key \<open>parada_codigo\<close>) and \<open>direcciones_cache\<close>
  (primary key \<open>(latitud, longitud)\<close>): a row holds the serialised payload and the time
  of writing. \<open>json.loads\<close> and \<open>json.dumps\<close> are parameters; \<open>json_loads\<close> returning
  \<open>None\<close> stands for \<open>JSONDecodeError\<close>. Each function returns the table it leaves
  behind next to its result; \<open>now\<close> is the reading of \<open>datetime.now()\<close>.
\<close>

record cache_row =
  payload_json :: string
  cached_at :: int

type_synonym tiempos_cache = "string \<rightharpoonup> cache_row"
type_synonym direcciones_cache = "real \<times> real \<rightharpoonup> cache_row"

definition get_cached_tiempos ::
  "(string \<Rightarrow> 'v option) \<Rightarrow> int \<Rightarrow> string \<Rightarrow> tiempos_cache \<Rightarrow> 'v option \<times> tiempos_cache" where
  "get_cached_tiempos json_loads now parada_codigo tc =
     (case tc parada_codigo of
        None \<Rightarrow> (None, tc)
      | Some row \<Rightarrow>
          if now - cached_at row < timedelta_minutes CACHE_TTL_MINUTES then
            (case json_loads (payload_json row) of
               Some v \<Rightarrow> (Some v, tc)
             | None \<Rightarrow> (None, tc(parada_codigo := None)))
          else (None, tc))"

definition save_tiempos_cache ::
  "('v \<Rightarrow> string) \<Rightarrow> int \<Rightarrow> string \<Rightarrow> 'v \<Rightarrow> tiempos_cache \<Rightarrow> tiempos_cache" where
  "save_tiempos_cache json_dumps now parada_codigo tiempos tc =
     tc(parada_codigo \<mapsto> \<lparr>payload_json = json_dumps tiempos, cached_at = now\<rparr>)"

definition get_cached_direccion ::
  "(string \<Rightarrow> 'v option) \<Rightarrow> int \<Rightarrow> real \<Rightarrow> real \<Rightarrow> direcciones_cache
     \<Rightarrow> 'v option \<times> direcciones_cache" where
  "get_cached_direccion json_loads now lat lon dc =
     (let lat_r = py_round_ndigits lat 4; lon_r = py_round_ndigits lon 4
      in case dc (lat_r, lon_r) of
        None \<Rightarrow> (None, dc)
      | Some row \<Rightarrow>
          if now - cached_at row < timedelta_days CACHE_DIRECCIONES_TTL_DIAS then
            (case json_loads (payload_json row) of
               Some v \<Rightarrow> (Some v, dc)
             | None \<Rightarrow> (None, dc((lat_r, lon_r) := None)))
          else (None, dc))"

definition save_direccion_cache ::
  "('v \<Rightarrow> string) \<Rightarrow> int \<Rightarrow> real \<Rightarrow> real \<Rightarrow> 'v \<Rightarrow> direcciones_cache \<Rightarrow> direcciones_cache" where
  "save_direccion_cache json_dumps now lat lon direccion dc =
     (let lat_r = py_round_ndigits lat 4; lon_r = py_round_ndigits lon 4
      in dc((lat_r, lon_r) \<mapsto> \<lparr>payload_json = json_dumps direccion, cached_at = now\<rparr>))"


text \<open>An arrival cache holding one entry, for stop 43, written at time 0.\<close>

definition demo_tiempos_cache :: tiempos_cache where
  "demo_tiempos_cache = [''43'' \<mapsto> \<lparr>payload_json = ''{}'', cached_at = 0\<rparr>]"


section \<open>Stops\<close>

text \<open>
  Table \<open>paradas\<close>, primary key \<open>codigo\<close>: a map from the code to the row. A nullable
  column is an \<open>option\<close>.
\<close>

record parada =
  codigo :: string
  nombre :: string
  latitud :: real
  longitud :: real
  calle :: "string option"
  numero :: "string option"
  codigo_postal :: "string option"
  municipio :: "string option"
  provincia :: "string option"
  comunidad_autonoma :: "string option"
  direccion_completa :: "string option"
  updated_at :: int

text \<open>
  An input dictionary of \<open>save_paradas_batch\<close>. The keys \<open>codigo\<close>, \<open>nombre\<close>, \<open>latitud\<close>
  and \<open>longitud\<close> are read with a subscript and are taken to be present; \<open>calle\<close> and
  \<open>numero\<close> are read with \<open>p.get\<close>, which gives \<open>None\<close> for a missing key. The dictionary
  has no other address key.
\<close>

record parada_dict =
  p_codigo :: string
  p_nombre :: string
  p_latitud :: real
  p_longitud :: real
  p_calle :: "string option"
  p_numero :: "string option"

definition truthy :: "string option \<Rightarrow> bool" where
  \<comment> \<open>\<open>if calle:\<close> on a value that is \<open>None\<close> or a string\<close>
  "truthy v = (case v of None \<Rightarrow> False | Some s \<Rightarrow> s \<noteq> [])"

definition upsert_parada :: "int \<Rightarrow> parada_dict \<Rightarrow> (string \<rightharpoonup> parada) \<Rightarrow> (string \<rightharpoonup> parada)" where
  \<comment> \<open>one iteration of the loop: the two \<open>INSERT ... ON CONFLICT(codigo) DO UPDATE SET\<close> statements\<close>
  "upsert_parada now p tbl =
     (let calle_in = p_calle p in
      if truthy calle_in then
        (case tbl (p_codigo p) of
           None \<Rightarrow>
             tbl(p_codigo p \<mapsto>
               \<lparr>codigo = p_codigo p, nombre = p_nombre p, latitud = p_latitud p,
                longitud = p_longitud p, calle = calle_in, numero = p_numero p,
                codigo_postal = None, municipio = None, provincia = None,
                comunidad_autonoma = None, direccion_completa = None, updated_at = now\<rparr>)
         | Some r \<Rightarrow>
             tbl(p_codigo p \<mapsto>
               r\<lparr>nombre := p_nombre p, latitud := p_latitud p, longitud := p_longitud p,
                 calle := calle_in, numero := p_numero p, updated_at := now\<rparr>))
      else
        (case tbl (p_codigo p) of
           None \<Rightarrow>
             tbl(p_codigo p \<mapsto>
               \<lparr>codigo = p_codigo p, nombre = p_nombre p, latitud = p_latitud p,
                longitud = p_longitud p, calle = None, numero = None,
                codigo_postal = None, municipio = None, provincia = None,
                comunidad_autonoma = None, direccion_completa = None, updated_at = now\<rparr>)
         | Some r \<Rightarrow>
             tbl(p_codigo p \<mapsto>
               r\<lparr>nombre := p_nombre p, latitud := p_latitud p, longitud := p_longitud p,
                 updated_at := now\<rparr>)))"

text \<open>
  \<open>for p in paradas\<close>; \<open>clock i\<close> is the reading of \<open>datetime.now()\<close> in iteration \<open>i\<close>.
\<close>

fun save_paradas_loop ::
  "(nat \<Rightarrow> int) \<Rightarrow> nat \<Rightarrow> parada_dict list \<Rightarrow> (string \<rightharpoonup> parada) \<Rightarrow> (string \<rightharpoonup> parada)" where
  "save_paradas_loop clock i [] tbl = tbl"
| "save_paradas_loop clock i (p # ps) tbl =
     save_paradas_loop clock (Suc i) ps (upsert_parada (clock i) p tbl)"

definition save_paradas_batch ::
  "(nat \<Rightarrow> int) \<Rightarrow> parada_dict list \<Rightarrow> (string \<rightharpoonup> parada) \<Rightarrow> (string \<rightharpoonup> parada)" where
  "save_paradas_batch clock paradas tbl = save_paradas_loop clock 0 paradas tbl"

text \<open>
  What an upsert of the dictionary \<open>p\<close> makes of a stored row \<open>r\<close> with the same code, the
  time stamp left aside.
\<close>

definition upserted :: "parada_dict \<Rightarrow> parada \<Rightarrow> parada \<Rightarrow> bool" where
  "upserted p r r' \<longleftrightarrow>
     codigo r' = codigo r \<and> nombre r' = p_nombre p \<and> latitud r' = p_latitud p
     \<and> longitud r' = p_longitud p
     \<and> calle r' = (if truthy (p_calle p) then p_calle p else calle r)
     \<and> numero r' = (if truthy (p_calle p) then p_numero p else numero r)
     \<and> codigo_postal r' = codigo_postal r \<and> municipio r' = municipio r
     \<and> provincia r' = provincia r \<and> comunidad_autonoma r' = comunidad_autonoma r
     \<and> direccion_completa r' = direccion_completa r"

text \<open>Example data: stop 43 with a geocoded address, and two inputs for it.\<close>

definition parada_43 :: parada where
  "parada_43 =
     \<lparr>codigo = ''43'', nombre = ''Recaredo'', latitud = 37.389663, longitud = - 5.984265,
      calle = Some ''Calle Recaredo'', numero = Some ''1'', codigo_postal = Some ''41003'',
      municipio = Some ''Sevilla'', provincia = Some ''Sevilla'',
      comunidad_autonoma = Some ''Andalucia'', direccion_completa = Some ''Calle Recaredo 1'',
      updated_at = 0\<rparr>"

definition sin_direccion :: parada_dict where
  "sin_direccion =
     \<lparr>p_codigo = ''43'', p_nombre = ''Recaredo (Puerta Carmona)'', p_latitud = 37.3897,
      p_longitud = - 5.9843, p_calle = None, p_numero = None\<rparr>"

definition con_direccion :: parada_dict where
  "con_direccion =
     \<lparr>p_codigo = ''43'', p_nombre = ''Recaredo (Puerta Carmona)'', p_latitud = 37.3897,
      p_longitud = - 5.9843, p_calle = Some ''Calle Nueva'', p_numero = Some ''5''\<rparr>"

section \<open>Stop-line memberships\<close>

text \<open>
  Table \<open>paradas_lineas\<close>, primary key \<open>(parada_codigo, linea_numero, sentido)\<close>. The table
  is the list of its rows in insertion order.
\<close>

record relacion =
  parada_codigo :: string
  linea_numero :: string
  sentido :: int
  orden :: int

definition pk :: "relacion \<Rightarrow> string \<times> string \<times> int" where
  "pk r = (parada_codigo r, linea_numero r, sentido r)"

text \<open>
  An input dictionary of \<open>save_paradas_lineas_batch\<close>: a field is \<open>None\<close> where the key is
  missing, and then \<open>r["..."]\<close> raises \<open>KeyError\<close>. The four subscripts are evaluated in the
  order of the tuple.
\<close>

record relacion_dict =
  d_parada_codigo :: "string option"
  d_linea_numero :: "string option"
  d_sentido :: "int option"
  d_orden :: "int option"

definition fila :: "relacion_dict \<Rightarrow> error + relacion" where
  "fila r =
     (case d_parada_codigo r of
        None \<Rightarrow> Inl (KeyError ''parada_codigo'')
      | Some p \<Rightarrow>
     (case d_linea_numero r of
        None \<Rightarrow> Inl (KeyError ''linea_numero'')
      | Some l \<Rightarrow>
     (case d_sentido r of
        None \<Rightarrow> Inl (KeyError ''sentido'')
      | Some s \<Rightarrow>
     (case d_orden r of
        None \<Rightarrow> Inl (KeyError ''orden'')
      | Some n \<Rightarrow> Inr \<lparr>parada_codigo = p, linea_numero = l, sentido = s, orden = n\<rparr>))))"

text \<open>
  A connection holds the committed table and the table as the open transaction sees it.
  What the database holds once the connection is closed is \<open>committed\<close>.
\<close>

record conn =
  committed :: "relacion list"
  working :: "relacion list"

definition connect :: "relacion list \<Rightarrow> conn" where
  "connect db = \<lparr>committed = db, working = db\<rparr>"

definition delete_paradas_lineas :: "conn \<Rightarrow> conn" where
  \<comment> \<open>\<open>DELETE FROM paradas_lineas\<close>\<close>
  "delete_paradas_lineas c = c\<lparr>working := []\<rparr>"

definition insert_or_ignore :: "relacion \<Rightarrow> conn \<Rightarrow> conn" where
  \<comment> \<open>\<open>INSERT OR IGNORE\<close>: a row whose primary key is already present is skipped\<close>
  "insert_or_ignore row c =
     (if pk row \<in> set (map pk (working c)) then c else c\<lparr>working := working c @ [row]\<rparr>)"

definition commit :: "conn \<Rightarrow> conn" where
  "commit c = c\<lparr>committed := working c\<rparr>"

definition rollback :: "conn \<Rightarrow> conn" where
  "rollback c = c\<lparr>working := committed c\<rparr>"

text \<open>
  The \<open>for r in relaciones\<close> loop. \<open>fails i\<close> says that the engine raises on the \<open>i\<close>-th
  statement of the connection (0 is the \<open>DELETE\<close>, then one per row, then the commit). The
  loop returns the exception, if any, and the connection as it stands.
\<close>

fun insert_relaciones ::
  "(nat \<Rightarrow> bool) \<Rightarrow> nat \<Rightarrow> relacion_dict list \<Rightarrow> conn \<Rightarrow> error option \<times> conn" where
  "insert_relaciones fails i [] c = (None, c)"
| "insert_relaciones fails i (r # rs) c =
     (case fila r of
        Inl e \<Rightarrow> (Some e, c)
      | Inr row \<Rightarrow>
          if fails i then (Some OperationalError, c)
          else insert_relaciones fails (Suc i) rs (insert_or_ignore row c))"

definition save_paradas_lineas_batch ::
  "(nat \<Rightarrow> bool) \<Rightarrow> relacion_dict list \<Rightarrow> relacion list
     \<Rightarrow> (error + unit) \<times> relacion list \<times> log_level list" where
  "save_paradas_lineas_batch fails relaciones db =
     (if relaciones = [] then (Inr (), db, [WARNING])
      else
        let c = connect db;
            (exc, c1) =
              (if fails 0 then (Some OperationalError, c)
               else case insert_relaciones fails 1 relaciones (delete_paradas_lineas c) of
                      (Some e, c') \<Rightarrow> (Some e, c')
                    | (None, c') \<Rightarrow>
                        if fails (Suc (length relaciones)) then (Some OperationalError, c')
                        else (None, commit c'))
        in case exc of
             Some e \<Rightarrow> (Inl e, committed (rollback c1), [ERROR])
           | None \<Rightarrow> (Inr (), committed c1, []))"

text \<open>Reads of the membership table.\<close>

definition get_sentidos_for_parada :: "relacion list \<Rightarrow> string \<Rightarrow> (string \<rightharpoonup> int list)" where
  \<comment> \<open>\<open>SELECT linea_numero, sentido ... WHERE parada_codigo = ? ORDER BY linea_numero, sentido\<close>,
      then \<open>result.setdefault(linea, []).append(sentido)\<close> for each row in that order\<close>
  "get_sentidos_for_parada db cod =
     (let rows = sort_key (\<lambda>r. (linea_numero r, sentido r))
                   (filter (\<lambda>r. parada_codigo r = cod) db)
      in fold (\<lambda>r result.
                 result(linea_numero r \<mapsto>
                   (case result (linea_numero r) of None \<Rightarrow> [] | Some l \<Rightarrow> l) @ [sentido r]))
           rows Map.empty)"

text \<open>Example data: two stored memberships, two well-formed inputs and one lacking \<open>orden\<close>.\<close>

definition demo_db :: "relacion list" where
  "demo_db =
     [\<lparr>parada_codigo = ''43'', linea_numero = ''01'', sentido = 1, orden = 0\<rparr>,
      \<lparr>parada_codigo = ''43'', linea_numero = ''01'', sentido = 2, orden = 7\<rparr>,
      \<lparr>parada_codigo = ''43'', linea_numero = ''C4'', sentido = 1, orden = 3\<rparr>]"

definition demo_nueva :: relacion_dict where
  "demo_nueva = \<lparr>d_parada_codigo = Some ''44'', d_linea_numero = Some ''C4'',
                  d_sentido = Some 2, d_orden = Some 0\<rparr>"

definition demo_rota :: relacion_dict where
  "demo_rota = \<lparr>d_parada_codigo = Some ''45'', d_linea_numero = Some ''C4'',
                 d_sentido = Some 2, d_orden = None\<rparr>"

section \<open>The retrying GET\<close>

text \<open>
  A response carries its status and its body. The upstream is a function from the number
  of the request (0 for the first \<open>client.get\<close>) to what that request yields: a response,
  or an exception of the transport (timeout, connection error), which \<open>_get_with_retry\<close>
  does not catch. The state records how many requests were issued and every
  \<open>asyncio.sleep\<close>, in seconds and in order.
\<close>

record response =
  status_code :: nat
  body :: string

datatype reply = Got response | Raised

record http_state =
  gets :: nat
  sleeps :: "nat list"

definition retryable :: "nat set" where
  "retryable = {429, 500, 502, 503}"

definition raise_for_status :: "response \<Rightarrow> error + response" where
  \<comment> \<open>\<open>httpx.Response.raise_for_status\<close>: raises \<open>HTTPStatusError\<close> unless the status is 2xx\<close>
  "raise_for_status resp =
     (if 200 \<le> status_code resp \<and> status_code resp \<le> 299 then Inr resp
      else Inl (HTTPStatusError (status_code resp)))"

text \<open>
  \<open>for attempt in range(max_retries)\<close>, as recursion on the attempts still to run;
  \<open>resp_var\<close> is the variable \<open>resp\<close>, \<open>None\<close> while it is unassigned.
\<close>

fun get_with_retry_loop ::
  "(nat \<Rightarrow> reply) \<Rightarrow> nat list \<Rightarrow> response option \<Rightarrow> http_state
     \<Rightarrow> (error + response) \<times> http_state" where
  "get_with_retry_loop upstream [] resp_var st =
     (case resp_var of
        None \<Rightarrow> (Inl UnboundLocalError, st)
      | Some resp \<Rightarrow> (raise_for_status resp, st))"
| "get_with_retry_loop upstream (attempt # rest) resp_var st =
     (case upstream (gets st) of
        Raised \<Rightarrow> (Inl TransportError, st\<lparr>gets := gets st + 1\<rparr>)
      | Got resp \<Rightarrow>
          if status_code resp \<in> retryable then
            get_with_retry_loop upstream rest (Some resp)
              (st\<lparr>gets := gets st + 1, sleeps := sleeps st @ [2 ^ (attempt + 1)]\<rparr>)
          else (raise_for_status resp, st\<lparr>gets := gets st + 1\<rparr>))"

definition get_with_retry ::
  "(nat \<Rightarrow> reply) \<Rightarrow> nat \<Rightarrow> http_state \<Rightarrow> (error + response) \<times> http_state" where
  "get_with_retry upstream max_retries st = get_with_retry_loop upstream [0..<max_retries] None st"

text \<open>An upstream that answers 429 once and 200 from then on, and a fresh client.\<close>

definition upstream_429_200 :: "nat \<Rightarrow> reply" where
  "upstream_429_200 n =
     (if n = 0 then Got \<lparr>status_code = 429, body = ''''\<rparr>
      else Got \<lparr>status_code = 200, body = ''ok''\<rparr>)"

text \<open>An upstream that answers 503 twice and 404 from then on.\<close>

definition upstream_503_503_404 :: "nat \<Rightarrow> reply" where
  "upstream_503_503_404 n =
     (if n < 2 then Got \<lparr>status_code = 503, body = ''''\<rparr>
      else Got \<lparr>status_code = 404, body = ''''\<rparr>)"

definition st0 :: http_state where
  "st0 = \<lparr>gets = 0, sleeps = []\<rparr>"

section \<open>Arrival times of a stop\<close>

text \<open>
  The body of the upstream answer, decoded: per line its label, its colour and its
  estimates. The defaults of the \<open>.get\<close> calls (0 seconds, empty texts, no lines) are taken
  to be applied by the decoder, which is a parameter; it gives \<open>None\<close> where the body is
  not JSON.
\<close>

record estimacion =
  est_segundos :: int
  est_destino :: string
  est_distancia :: int

record linea_coincidente =
  lc_labelLinea :: string
  lc_color :: string
  lc_estimaciones :: "estimacion list"

record tussam_result =
  descripcion :: string
  posicion :: "(int \<times> int) option"
  lineasCoincidentes :: "linea_coincidente list"

text \<open>One arrival of the answer, and the answer (\<open>result_data\<close>).\<close>

record tiempo =
  linea :: string
  color :: string
  tiempo_minutos :: int
  destino :: string
  distancia_metros :: int
  t_sentido :: "int option"

record tiempos_parada =
  rd_parada :: string
  rd_nombre :: string
  rd_latitud :: "real option"
  rd_longitud :: "real option"
  rd_tiempos :: "tiempo list"

definition resolver_sentido :: "(string \<rightharpoonup> int list) \<Rightarrow> string \<Rightarrow> int option" where
  \<comment> \<open>\<open>sentidos = sentidos_map.get(label, []); sentidos[0] if len(sentidos) == 1 else None\<close>\<close>
  "resolver_sentido sentidos_map label =
     (let sentidos = (case sentidos_map label of None \<Rightarrow> [] | Some l \<Rightarrow> l)
      in if length sentidos = 1 then Some (hd sentidos) else None)"

definition tiempos_de_linea :: "(string \<rightharpoonup> int list) \<Rightarrow> linea_coincidente \<Rightarrow> tiempo list" where
  \<comment> \<open>the body of \<open>for linea in lineas\<close>: one arrival per estimate, \<open>segundos // 60\<close> minutes\<close>
  "tiempos_de_linea sentidos_map l =
     (let label = lc_labelLinea l; col = lc_color l;
          s = resolver_sentido sentidos_map label
      in map (\<lambda>est. \<lparr>linea = label, color = col, tiempo_minutos = est_segundos est div 60,
                      destino = est_destino est, distancia_metros = est_distancia est,
                      t_sentido = s\<rparr>)
           (lc_estimaciones l))"

text \<open>
  The service holds the arrival cache, the membership table and the HTTP client.
  \<open>now\<close> and \<open>now_w\<close> are the readings of the clock at the cache read and at the cache write.
  A cached answer is a non-empty dictionary, so \<open>if cached:\<close> holds whenever the read hits.
\<close>

record servicio =
  cache :: tiempos_cache
  memberships :: "relacion list"
  client :: http_state

definition get_tiempos_parada ::
  "(string \<Rightarrow> tussam_result option) \<Rightarrow> (tiempos_parada \<Rightarrow> string) \<Rightarrow> (string \<Rightarrow> tiempos_parada option)
     \<Rightarrow> (nat \<Rightarrow> reply) \<Rightarrow> int \<Rightarrow> int \<Rightarrow> string \<Rightarrow> bool \<Rightarrow> servicio
     \<Rightarrow> (error + tiempos_parada) \<times> servicio" where
  "get_tiempos_parada decode json_dumps json_loads upstream now now_w codigo_parada force_refresh s =
     (let (cached, tc1) =
            (if force_refresh then (None, cache s)
             else get_cached_tiempos json_loads now codigo_parada (cache s))
      in case cached of
           Some v \<Rightarrow> (Inr v, s\<lparr>cache := tc1\<rparr>)
         | None \<Rightarrow>
             (case get_with_retry upstream 3 (client s) of
                (Inl e, h) \<Rightarrow> (Inl e, s\<lparr>cache := tc1, client := h\<rparr>)
              | (Inr resp, h) \<Rightarrow>
                  (case decode (body resp) of
                     None \<Rightarrow> (Inl JSONDecodeError, s\<lparr>cache := tc1, client := h\<rparr>)
                   | Some result \<Rightarrow>
                       let sentidos_map = get_sentidos_for_parada (memberships s) codigo_parada;
                           ts = concat (map (tiempos_de_linea sentidos_map)
                                          (lineasCoincidentes result));
                           result_data =
                             \<lparr>rd_parada = codigo_parada, rd_nombre = descripcion result,
                              rd_latitud = map_option (\<lambda>(la, lo). of_int la / 1000000)
                                             (posicion result),
                              rd_longitud = map_option (\<lambda>(la, lo). of_int lo / 1000000)
                                              (posicion result),
                              rd_tiempos = take 10 (sort_key tiempo_minutos ts)\<rparr>
                       in (Inr result_data,
                           s\<lparr>cache := save_tiempos_cache json_dumps now_w codigo_parada
                                        result_data tc1,
                             client := h\<rparr>))))"

text \<open>
  In the words of the specification: the directions recorded for a line at a stop, and the
  minutes until arrival of all estimates of an upstream answer.
\<close>

definition recorded_sentidos :: "relacion list \<Rightarrow> string \<Rightarrow> string \<Rightarrow> int set" where
  "recorded_sentidos db cod label =
     sentido ` {r \<in> set db. parada_codigo r = cod \<and> linea_numero r = label}"

definition minutos_de :: "tussam_result \<Rightarrow> int list" where
  "minutos_de result =
     concat (map (\<lambda>l. map (\<lambda>est. est_segundos est div 60) (lc_estimaciones l))
               (lineasCoincidentes result))"

text \<open>
  Example: an answer for stop 43 with two buses of line 01 (5 minutes and 1 minute away)
  and one of line C4 (2 minutes away), served with status 200.
\<close>

definition respuesta_43 :: tussam_result where
  "respuesta_43 =
     \<lparr>descripcion = ''Recaredo'', posicion = Some (37389663, - 5984265),
      lineasCoincidentes =
        [\<lparr>lc_labelLinea = ''01'', lc_color = ''#f54129'',
          lc_estimaciones = [\<lparr>est_segundos = 300, est_destino = ''Prado'', est_distancia = 1200\<rparr>,
                             \<lparr>est_segundos = 65, est_destino = ''Prado'', est_distancia = 300\<rparr>]\<rparr>,
         \<lparr>lc_labelLinea = ''C4'', lc_color = ''#000000'',
          lc_estimaciones = [\<lparr>est_segundos = 125, est_destino = ''Circular'', est_distancia = 600\<rparr>]\<rparr>]\<rparr>"

definition upstream_200 :: "nat \<Rightarrow> reply" where
  "upstream_200 n = Got \<lparr>status_code = 200, body = ''{}''\<rparr>"

definition servicio_43 :: servicio where
  "servicio_43 = \<lparr>cache = Map.empty, memberships = demo_db, client = st0\<rparr>"

section \<open>Proximity search\<close>

text \<open>
  An element of the answer: the copy of the stop's row with the keys \<open>distancia\<close>, and
  \<open>bearing\<close> and \<open>bearing_diff\<close> when a bearing was given (\<open>None\<close> is a missing key).
  \<open>all_paradas\<close> is the list \<open>get_all_paradas_from_db\<close> returned.
\<close>

record cercana =
  stop :: parada
  distancia :: int
  c_bearing :: "int option"
  c_bearing_diff :: "int option"

fun cercanas_loop :: "real \<Rightarrow> real \<Rightarrow> int \<Rightarrow> real option \<Rightarrow> parada list \<Rightarrow> cercana list" where
  "cercanas_loop lat lon radio bearing [] = []"
| "cercanas_loop lat lon radio bearing (p # ps) =
     (let d = haversine lat lon (latitud p) (longitud p)
      in if d \<le> of_int radio then
           (case bearing of
              None \<Rightarrow>
                \<lparr>stop = p, distancia = py_round d, c_bearing = None, c_bearing_diff = None\<rparr>
            | Some b \<Rightarrow>
                (let parada_bearing = calculate_bearing lat lon (latitud p) (longitud p)
                 in \<lparr>stop = p, distancia = py_round d,
                     c_bearing = Some (py_round parada_bearing),
                     c_bearing_diff = Some (py_round (bearing_diff b parada_bearing))\<rparr>))
           # cercanas_loop lat lon radio bearing ps
         else cercanas_loop lat lon radio bearing ps)"

definition get_paradas_cercanas ::
  "parada list \<Rightarrow> real \<Rightarrow> real \<Rightarrow> int \<Rightarrow> real option \<Rightarrow> real \<Rightarrow> cercana list" where
  \<comment> \<open>\<open>sorted\<close> is stable, as \<open>sort_key\<close> is\<close>
  "get_paradas_cercanas all_paradas lat lon radio bearing bearing_tolerance =
     (let cercanas = cercanas_loop lat lon radio bearing all_paradas
      in case bearing of
           Some b \<Rightarrow> sort_key (\<lambda>x. case c_bearing_diff x of None \<Rightarrow> 999 | Some d \<Rightarrow> d) cercanas
         | None \<Rightarrow> sort_key distancia cercanas)"

definition cercanas_con_tiempos_paradas ::
  "parada list \<Rightarrow> real \<Rightarrow> real \<Rightarrow> int \<Rightarrow> nat \<Rightarrow> real option \<Rightarrow> real \<Rightarrow> cercana list" where
  \<comment> \<open>the endpoint \<open>/cercanas\<close> up to \<open>paradas = paradas[:max_paradas]\<close>\<close>
  "cercanas_con_tiempos_paradas all_paradas lat lon radio max_paradas bearing bearing_tolerance =
     (let paradas = get_paradas_cercanas all_paradas lat lon radio bearing bearing_tolerance;
          paradas' =
            (case bearing of
               None \<Rightarrow> paradas
             | Some b \<Rightarrow>
                 filter (\<lambda>p. (case c_bearing_diff p of None \<Rightarrow> 999 | Some d \<Rightarrow> of_int d)
                               \<le> bearing_tolerance) paradas)
      in take max_paradas paradas')"

text \<open>
  In the words of the specification: the stop is within the radius; the distance and the
  bearing difference as the answer reports them, rounded to whole metres and degrees.
\<close>

definition dentro :: "real \<Rightarrow> real \<Rightarrow> int \<Rightarrow> parada \<Rightarrow> bool" where
  "dentro lat lon radio p \<longleftrightarrow> haversine lat lon (latitud p) (longitud p) \<le> of_int radio"

definition metros :: "real \<Rightarrow> real \<Rightarrow> parada \<Rightarrow> int" where
  "metros lat lon p = py_round (haversine lat lon (latitud p) (longitud p))"

definition grados_dif :: "real \<Rightarrow> real \<Rightarrow> real \<Rightarrow> parada \<Rightarrow> int" where
  "grados_dif lat lon b p =
     py_round (bearing_diff b (calculate_bearing lat lon (latitud p) (longitud p)))"

text \<open>
  Example: two stops due north of the query point \<open>(37.3897, -5.9843)\<close>, the first
  \<open>0.00001\<close> degrees of latitude away, the second \<open>0.000008\<close>.
\<close>

definition parada_A :: parada where
  "parada_A =
     \<lparr>codigo = ''A'', nombre = ''A'', latitud = 37.38971, longitud = - 5.9843,
      calle = None, numero = None, codigo_postal = None, municipio = None, provincia = None,
      comunidad_autonoma = None, direccion_completa = None, updated_at = 0\<rparr>"

definition parada_B :: parada where
  "parada_B =
     \<lparr>codigo = ''B'', nombre = ''B'', latitud = 37.389708, longitud = - 5.9843,
      calle = None, numero = None, codigo_postal = None, municipio = None, provincia = None,
      comunidad_autonoma = None, direccion_completa = None, updated_at = 0\<rparr>"

section \<open>Proximity search: membership, order, stability\<close>

lemma stops_cercanas_loop:
  "map stop (cercanas_loop lat lon radio bearing ps) = filter (dentro lat lon radio) ps"
  by (induction ps) (auto simp: dentro_def Let_def split: option.splits)

lemma distancia_cercanas_loop:
  "map distancia (cercanas_loop lat lon radio bearing ps)
   = map (metros lat lon) (filter (dentro lat lon radio) ps)"
  by (induction ps) (auto simp: dentro_def metros_def Let_def split: option.splits)

lemma bearing_diff_cercanas_loop:
  "map c_bearing_diff (cercanas_loop lat lon radio (Some b) ps)
   = map (\<lambda>p. Some (grados_dif lat lon b p)) (filter (dentro lat lon radio) ps)"
  by (induction ps) (auto simp: dentro_def grados_dif_def Let_def)

lemma distancia_is_metros:
  "x \<in> set (cercanas_loop lat lon radio bearing ps) \<Longrightarrow> distancia x = metros lat lon (stop x)"
  by (induction ps) (auto simp: metros_def Let_def split: option.splits if_splits)

lemma bearing_diff_is_grados:
  "x \<in> set (cercanas_loop lat lon radio (Some b) ps)
     \<Longrightarrow> c_bearing_diff x = Some (grados_dif lat lon b (stop x))"
  by (induction ps) (auto simp: grados_dif_def Let_def split: if_splits)

lemma sort_key_cong_on:
  "(\<And>x. x \<in> set xs \<Longrightarrow> f x = g x) \<Longrightarrow> sort_key f xs = sort_key g xs"
proof (induction xs)
  case Nil
  then show ?case by simp
next
  case (Cons a xs)
  have mem: "f x = g x" if "x \<in> set (sort_key g xs)" for x
    using that Cons.prems by simp
  have ins: "insort_key f a ys = insort_key g a ys" if "\<And>x. x \<in> set ys \<Longrightarrow> f x = g x" for ys
    using that Cons.prems [of a] by (induction ys) auto
  from Cons have "sort_key f xs = sort_key g xs" by simp
  with ins [of "sort_key g xs"] mem show ?case by simp
qed

lemma map_sort_key:
  "map h (sort_key (\<lambda>x. f (h x)) xs) = sort_key f (map h xs)"
proof (induction xs)
  case Nil
  then show ?case by simp
next
  case (Cons a xs)
  have "map h (insort_key (\<lambda>x. f (h x)) a ys) = insort_key f (h a) (map h ys)" for ys
    by (induction ys) auto
  with Cons show ?case by simp
qed

lemma stops_sin_bearing:
  "map stop (get_paradas_cercanas ps lat lon radio None tol)
   = sort_key (metros lat lon) (filter (dentro lat lon radio) ps)"
proof -
  let ?cs = "cercanas_loop lat lon radio None ps"
  have "sort_key distancia ?cs = sort_key (\<lambda>x. metros lat lon (stop x)) ?cs"
    by (rule sort_key_cong_on) (rule distancia_is_metros)
  then have "map stop (get_paradas_cercanas ps lat lon radio None tol)
      = map stop (sort_key (\<lambda>x. metros lat lon (stop x)) ?cs)"
    by (simp add: get_paradas_cercanas_def)
  also have "\<dots> = sort_key (metros lat lon) (map stop ?cs)" by (rule map_sort_key)
  finally show ?thesis by (simp only: stops_cercanas_loop)
qed

lemma stops_con_bearing:
  "map stop (get_paradas_cercanas ps lat lon radio (Some b) tol)
   = sort_key (grados_dif lat lon b) (filter (dentro lat lon radio) ps)"
proof -
  let ?cs = "cercanas_loop lat lon radio (Some b) ps"
  have "sort_key (\<lambda>x. case c_bearing_diff x of None \<Rightarrow> 999 | Some d \<Rightarrow> d) ?cs
      = sort_key (\<lambda>x. grados_dif lat lon b (stop x)) ?cs"
    by (rule sort_key_cong_on) (simp add: bearing_diff_is_grados)
  then have "map stop (get_paradas_cercanas ps lat lon radio (Some b) tol)
      = map stop (sort_key (\<lambda>x. grados_dif lat lon b (stop x)) ?cs)"
    by (simp add: get_paradas_cercanas_def)
  also have "\<dots> = sort_key (grados_dif lat lon b) (map stop ?cs)" by (rule map_sort_key)
  finally show ?thesis by (simp only: stops_cercanas_loop)
qed

lemma annotations_sin_bearing:
  "map distancia (get_paradas_cercanas ps lat lon radio None tol)
   = map (metros lat lon) (map stop (get_paradas_cercanas ps lat lon radio None tol))"
proof -
  have "distancia x = metros lat lon (stop x)"
    if "x \<in> set (get_paradas_cercanas ps lat lon radio None tol)" for x
    using that by (simp add: get_paradas_cercanas_def distancia_is_metros)
  then show ?thesis by simp
qed

lemma annotations_con_bearing:
  "map c_bearing_diff (get_paradas_cercanas ps lat lon radio (Some b) tol)
   = map (\<lambda>p. Some (grados_dif lat lon b p))
       (map stop (get_paradas_cercanas ps lat lon radio (Some b) tol))"
proof -
  have "c_bearing_diff x = Some (grados_dif lat lon b (stop x))"
    if "x \<in> set (get_paradas_cercanas ps lat lon radio (Some b) tol)" for x
    using that by (simp add: get_paradas_cercanas_def bearing_diff_is_grados)
  then show ?thesis by simp
qed

text \<open>
  C1 (amended). For every query point, radius and list of stored stops, the stops of the
  answer are exactly the stored stops whose haversine distance from the query point is at
  most the radius, each as often as it is stored. Without a bearing the answer is in
  ascending order of the reported distance, which is the haversine distance rounded to whole
  metres; with a bearing it is in ascending order of the reported bearing difference, which
  is \<open>bearing_diff\<close> of the query bearing and the stop's bearing from the query point,
  rounded to whole degrees. In both cases stops with the same reported value keep the
  order in which they are stored.
\<close>

theorem get_paradas_cercanas_filter_sorted_stable:
  "mset (map stop (get_paradas_cercanas ps lat lon radio None tol))
     = mset (filter (dentro lat lon radio) ps)
   \<and> set (map stop (get_paradas_cercanas ps lat lon radio None tol))
     = {p \<in> set ps. haversine lat lon (latitud p) (longitud p) \<le> of_int radio}
   \<and> map distancia (get_paradas_cercanas ps lat lon radio None tol)
     = map (metros lat lon) (map stop (get_paradas_cercanas ps lat lon radio None tol))
   \<and> sorted (map distancia (get_paradas_cercanas ps lat lon radio None tol))
   \<and> (\<forall>k. filter (\<lambda>p. metros lat lon p = k)
             (map stop (get_paradas_cercanas ps lat lon radio None tol))
           = filter (\<lambda>p. metros lat lon p = k) (filter (dentro lat lon radio) ps))
   \<and> mset (map stop (get_paradas_cercanas ps lat lon radio (Some b) tol))
     = mset (filter (dentro lat lon radio) ps)
   \<and> set (map stop (get_paradas_cercanas ps lat lon radio (Some b) tol))
     = {p \<in> set ps. haversine lat lon (latitud p) (longitud p) \<le> of_int radio}
   \<and> map c_bearing_diff (get_paradas_cercanas ps lat lon radio (Some b) tol)
     = map (\<lambda>p. Some (grados_dif lat lon b p))
         (map stop (get_paradas_cercanas ps lat lon radio (Some b) tol))
   \<and> sorted (map (grados_dif lat lon b)
        (map stop (get_paradas_cercanas ps lat lon radio (Some b) tol)))
   \<and> (\<forall>k. filter (\<lambda>p. grados_dif lat lon b p = k)
             (map stop (get_paradas_cercanas ps lat lon radio (Some b) tol))
           = filter (\<lambda>p. grados_dif lat lon b p = k) (filter (dentro lat lon radio) ps))"
proof -
  let ?W = "filter (dentro lat lon radio) ps"
  let ?S0 = "map stop (get_paradas_cercanas ps lat lon radio None tol)"
  let ?Sb = "map stop (get_paradas_cercanas ps lat lon radio (Some b) tol)"
  have s0: "?S0 = sort_key (metros lat lon) ?W" by (rule stops_sin_bearing)
  have sb: "?Sb = sort_key (grados_dif lat lon b) ?W" by (rule stops_con_bearing)
  have w: "set ?W = {p \<in> set ps. haversine lat lon (latitud p) (longitud p) \<le> of_int radio}"
    by (auto simp: dentro_def)
  have a1: "mset ?S0 = mset ?W" unfolding s0 by simp
  have a2: "set ?S0 = {p \<in> set ps. haversine lat lon (latitud p) (longitud p) \<le> of_int radio}"
    unfolding s0 using w by simp
  have a3: "map distancia (get_paradas_cercanas ps lat lon radio None tol) = map (metros lat lon) ?S0"
    by (rule annotations_sin_bearing)
  have "sorted (map (metros lat lon) ?S0)" unfolding s0 by (rule sorted_sort_key)
  then have a4: "sorted (map distancia (get_paradas_cercanas ps lat lon radio None tol))"
    by (simp only: a3)
  have a5: "\<forall>k. filter (\<lambda>p. metros lat lon p = k) ?S0 = filter (\<lambda>p. metros lat lon p = k) ?W"
    unfolding s0 by (simp add: sort_key_stable)
  have b1: "mset ?Sb = mset ?W" unfolding sb by simp
  have b2: "set ?Sb = {p \<in> set ps. haversine lat lon (latitud p) (longitud p) \<le> of_int radio}"
    unfolding sb using w by simp
  have b3: "map c_bearing_diff (get_paradas_cercanas ps lat lon radio (Some b) tol)
      = map (\<lambda>p. Some (grados_dif lat lon b p)) ?Sb"
    by (rule annotations_con_bearing)
  have b4: "sorted (map (grados_dif lat lon b) ?Sb)" unfolding sb by (rule sorted_sort_key)
  have b5: "\<forall>k. filter (\<lambda>p. grados_dif lat lon b p = k) ?Sb
      = filter (\<lambda>p. grados_dif lat lon b p = k) ?W"
    unfolding sb by (simp add: sort_key_stable)
  from a1 a2 a3 a4 a5 b1 b2 b3 b4 b5 show ?thesis by (intro conjI)
qed

lemma haversine_meridian:
  assumes "\<bar>lat2 - lat1\<bar> \<le> 180"
  shows "haversine lat1 lon lat2 lon = 6371000 * (\<bar>lat2 - lat1\<bar> * pi / 180)"
proof -
  define x where "x = radians (lat2 - lat1) / 2"
  have ax: "\<bar>x\<bar> = \<bar>lat2 - lat1\<bar> * pi / 360"
    by (simp add: x_def radians_def abs_mult)
  have "\<bar>lat2 - lat1\<bar> * pi \<le> 180 * pi" using assms by simp
  with ax have bound: "\<bar>x\<bar> \<le> pi / 2" by linarith
  have "sin \<bar>x\<bar> = \<bar>sin x\<bar>"
  proof (cases "0 \<le> x")
    case True
    with bound have "0 \<le> sin x" by (intro sin_ge_zero) auto
    with True show ?thesis by simp
  next
    case False
    with bound have "0 \<le> sin (- x)" by (intro sin_ge_zero) auto
    with False show ?thesis by simp
  qed
  moreover have "arcsin (sin \<bar>x\<bar>) = \<bar>x\<bar>"
    using bound by (intro arcsin_sin) auto
  ultimately have asn: "arcsin \<bar>sin x\<bar> = \<bar>x\<bar>" by simp
  have "haversine lat1 lon lat2 lon = 2 * 6371000 * arcsin (sqrt ((sin x)\<^sup>2))"
    by (simp add: haversine_def Let_def x_def radians_def)
  also have "\<dots> = 2 * 6371000 * \<bar>x\<bar>" by (simp only: real_sqrt_abs asn)
  also have "\<dots> = 6371000 * (\<bar>lat2 - lat1\<bar> * pi / 180)" by (simp add: ax)
  finally show ?thesis .
qed

lemma py_round_unique:
  assumes "of_int n - 1/2 < x" "x < of_int n + 1/2"
  shows "py_round x = n"
proof -
  define f where "f = \<lfloor>x\<rfloor>"
  have fl: "of_int f \<le> x" "x < of_int f + 1" unfolding f_def by linarith+
  from assms fl have "real_of_int f < of_int n + 1/2" "real_of_int n - 3/2 < of_int f" by linarith+
  then have "real_of_int f < real_of_int (n + 1)" "real_of_int (n - 2) < real_of_int f" by simp_all
  then have "f < n + 1" "n - 2 < f" by (simp_all only: of_int_less_iff)
  then consider "f = n" | "f = n - 1" by linarith
  then show ?thesis
  proof cases
    case 1
    with assms show ?thesis unfolding py_round_def Let_def f_def [symmetric] by simp
  next
    case 2
    with assms show ?thesis unfolding py_round_def Let_def f_def [symmetric] by simp
  qed
qed

lemma distancia_A:
  "haversine 37.3897 (- 5.9843) (latitud parada_A) (longitud parada_A) = 6371 * pi / 18000"
  using haversine_meridian [of "37.38971" "37.3897" "- 5.9843"] by (simp add: parada_A_def)

lemma distancia_B:
  "haversine 37.3897 (- 5.9843) (latitud parada_B) (longitud parada_B) = 6371 * pi / 22500"
  using haversine_meridian [of "37.389708" "37.3897" "- 5.9843"] by (simp add: parada_B_def)

lemma metros_A_B:
  "metros 37.3897 (- 5.9843) parada_A = 1" "metros 37.3897 (- 5.9843) parada_B = 1"
proof -
  have pi_bounds: "2 \<le> pi" "pi < 4" by (rule pi_ge_two, rule pi_less_4)
  have "of_int 1 - 1/2 < 6371 * pi / 18000" "6371 * pi / 18000 < of_int 1 + 1/2"
    using pi_bounds by simp_all
  then have "py_round (6371 * pi / 18000) = 1" by (rule py_round_unique)
  then show "metros 37.3897 (- 5.9843) parada_A = 1" by (simp only: metros_def distancia_A)
  have "of_int 1 - 1/2 < 6371 * pi / 22500" "6371 * pi / 22500 < of_int 1 + 1/2"
    using pi_bounds by simp_all
  then have "py_round (6371 * pi / 22500) = 1" by (rule py_round_unique)
  then show "metros 37.3897 (- 5.9843) parada_B = 1" by (simp only: metros_def distancia_B)
qed

text \<open>
  Stop A is about 1.11 m from the query point and stop B about 0.89 m; both are reported
  at 1 m, so the answer keeps them in stored order, A before B, which is not the order of
  their haversine distances.
\<close>

theorem get_paradas_cercanas_distance_order_counterexample:
  "\<not> sorted (map (\<lambda>x. haversine 37.3897 (- 5.9843) (latitud (stop x)) (longitud (stop x)))
       (get_paradas_cercanas [parada_A, parada_B] 37.3897 (- 5.9843) 200 None 60))"
proof -
  have pi_bounds: "2 \<le> pi" "pi < 4" by (rule pi_ge_two, rule pi_less_4)
  have inA: "dentro 37.3897 (- 5.9843) 200 parada_A"
    unfolding dentro_def distancia_A using pi_bounds by simp
  have inB: "dentro 37.3897 (- 5.9843) 200 parada_B"
    unfolding dentro_def distancia_B using pi_bounds by simp
  have "map stop (get_paradas_cercanas [parada_A, parada_B] 37.3897 (- 5.9843) 200 None 60)
      = sort_key (metros 37.3897 (- 5.9843)) (filter (dentro 37.3897 (- 5.9843) 200) [parada_A, parada_B])"
    by (rule stops_sin_bearing)
  also have "\<dots> = [parada_A, parada_B]"
    using inA inB metros_A_B by simp
  finally have stops: "map stop (get_paradas_cercanas [parada_A, parada_B] 37.3897 (- 5.9843) 200 None 60)
      = [parada_A, parada_B]" .
  have "map (\<lambda>x. haversine 37.3897 (- 5.9843) (latitud (stop x)) (longitud (stop x)))
       (get_paradas_cercanas [parada_A, parada_B] 37.3897 (- 5.9843) 200 None 60)
     = map (\<lambda>p. haversine 37.3897 (- 5.9843) (latitud p) (longitud p))
         (map stop (get_paradas_cercanas [parada_A, parada_B] 37.3897 (- 5.9843) 200 None 60))"
    by (simp add: comp_def)
  also have "\<dots> = [6371 * pi / 18000, 6371 * pi / 22500]"
    by (simp only: stops list.map distancia_A distancia_B)
  finally have "map (\<lambda>x. haversine 37.3897 (- 5.9843) (latitud (stop x)) (longitud (stop x)))
       (get_paradas_cercanas [parada_A, parada_B] 37.3897 (- 5.9843) 200 None 60)
     = [6371 * pi / 18000, 6371 * pi / 22500]" .
  moreover have "\<not> sorted [6371 * pi / 18000, 6371 * pi / 22500]"
  proof
    assume "sorted [6371 * pi / 18000, 6371 * pi / 22500]"
    then have "6371 * pi / 18000 \<le> 6371 * pi / 22500" by (simp only: sorted2)
    with pi_bounds show False by linarith
  qed
  ultimately show ?thesis by (simp only: simp_thms)
qed

text \<open>
  C10. The answer of the proximity search is the same whatever the bearing tolerance. The
  tolerance acts in the endpoint \<open>/cercanas\<close> only: with a bearing, the endpoint keeps the
  stops of the search whose reported bearing difference is at most the tolerance and then
  the first \<open>max_paradas\<close> of them; without a bearing it keeps the first \<open>max_paradas\<close>
  stops of the search.
\<close>

theorem get_paradas_cercanas_ignores_tolerance:
  "get_paradas_cercanas ps lat lon radio bearing tol1 = get_paradas_cercanas ps lat lon radio bearing tol2
   \<and> cercanas_con_tiempos_paradas ps lat lon radio n (Some b) tol
     = take n (filter (\<lambda>p. \<exists>d. c_bearing_diff p = Some d \<and> of_int d \<le> tol)
         (get_paradas_cercanas ps lat lon radio (Some b) tol'))
   \<and> cercanas_con_tiempos_paradas ps lat lon radio n None tol
     = take n (get_paradas_cercanas ps lat lon radio None tol')"
proof -
  have indep: "get_paradas_cercanas ps lat lon radio bg t1 = get_paradas_cercanas ps lat lon radio bg t2"
    for bg t1 t2
    by (simp add: get_paradas_cercanas_def)
  have "(case c_bearing_diff x of None \<Rightarrow> 999 | Some d \<Rightarrow> real_of_int d) \<le> tol
      \<longleftrightarrow> (\<exists>d. c_bearing_diff x = Some d \<and> of_int d \<le> tol)"
    if "x \<in> set (get_paradas_cercanas ps lat lon radio (Some b) tol)" for x
  proof -
    from that have "c_bearing_diff x = Some (grados_dif lat lon b (stop x))"
      by (simp add: get_paradas_cercanas_def bearing_diff_is_grados)
    then show ?thesis by simp
  qed
  then have "filter (\<lambda>p. (case c_bearing_diff p of None \<Rightarrow> 999 | Some d \<Rightarrow> real_of_int d) \<le> tol)
        (get_paradas_cercanas ps lat lon radio (Some b) tol)
      = filter (\<lambda>p. \<exists>d. c_bearing_diff p = Some d \<and> of_int d \<le> tol)
        (get_paradas_cercanas ps lat lon radio (Some b) tol)"
    by (intro filter_cong) auto
  then have withb: "cercanas_con_tiempos_paradas ps lat lon radio n (Some b) tol
     = take n (filter (\<lambda>p. \<exists>d. c_bearing_diff p = Some d \<and> of_int d \<le> tol)
         (get_paradas_cercanas ps lat lon radio (Some b) tol'))"
    by (simp add: cercanas_con_tiempos_paradas_def Let_def indep [of "Some b" tol tol'])
  have without: "cercanas_con_tiempos_paradas ps lat lon radio n None tol
     = take n (get_paradas_cercanas ps lat lon radio None tol')"
    by (simp add: cercanas_con_tiempos_paradas_def Let_def indep [of None tol tol'])
  from indep [of bearing tol1 tol2] withb without show ?thesis by (intro conjI)
qed

section \<open>Batch upsert of stops\<close>

lemma upsert_parada_other:
  "c \<noteq> p_codigo q \<Longrightarrow> upsert_parada now q tbl c = tbl c"
  by (simp add: upsert_parada_def Let_def split: option.splits)

lemma dom_upsert_parada:
  "dom (upsert_parada now q tbl) = insert (p_codigo q) (dom tbl)"
  by (simp add: upsert_parada_def Let_def split: option.splits)

lemma upsert_parada_stored:
  assumes "tbl (p_codigo p) = Some r"
  shows "\<exists>r'. upsert_parada now p tbl (p_codigo p) = Some r' \<and> upserted p r r'"
  using assms by (simp add: upsert_parada_def Let_def upserted_def)

lemma upserted_twice:
  "upserted p r r1 \<Longrightarrow> upserted p r1 r2 \<Longrightarrow> upserted p r r2"
  by (simp add: upserted_def)

lemma dom_save_paradas_loop:
  "dom (save_paradas_loop clock i ps tbl) = dom tbl \<union> set (map p_codigo ps)"
  by (induction ps arbitrary: i tbl) (auto simp: dom_upsert_parada)

lemma save_paradas_loop_other:
  "c \<notin> set (map p_codigo ps) \<Longrightarrow> save_paradas_loop clock i ps tbl c = tbl c"
  by (induction ps arbitrary: i tbl) (auto simp: upsert_parada_other)

lemma save_paradas_loop_stored:
  assumes "tbl c = Some r" "p_codigo p = c" "\<forall>q\<in>set ps. p_codigo q = c \<longrightarrow> q = p"
  shows "\<exists>r'. save_paradas_loop clock i ps tbl c = Some r'
    \<and> (if p \<in> set ps then upserted p r r' else r' = r)"
  using assms
proof (induction ps arbitrary: i tbl r)
  case Nil
  then show ?case by simp
next
  case (Cons q ps)
  from Cons.prems(3) have rest: "\<forall>q\<in>set ps. p_codigo q = c \<longrightarrow> q = p" by simp
  show ?case
  proof (cases "p_codigo q = c")
    case True
    with Cons.prems(3) have q: "q = p" by simp
    from upsert_parada_stored [where tbl = tbl and p = p and r = r and now = "clock i"]
      Cons.prems(1,2)
    obtain r1 where r1: "upsert_parada (clock i) p tbl c = Some r1" "upserted p r r1" by auto
    from Cons.IH [where tbl = "upsert_parada (clock i) p tbl" and r = r1 and i = "Suc i",
        OF r1(1) Cons.prems(2) rest]
    obtain r' where r': "save_paradas_loop clock (Suc i) ps (upsert_parada (clock i) p tbl) c = Some r'"
      "if p \<in> set ps then upserted p r1 r' else r' = r1" by blast
    from r'(2) r1(2) have "upserted p r r'"
      by (auto intro: upserted_twice split: if_splits)
    with r'(1) q show ?thesis by simp
  next
    case False
    then have "upsert_parada (clock i) q tbl c = Some r"
      using Cons.prems(1) by (simp add: upsert_parada_other)
    from Cons.IH [where tbl = "upsert_parada (clock i) q tbl" and r = r and i = "Suc i",
        OF this Cons.prems(2) rest] False Cons.prems(2)
    show ?thesis by auto
  qed
qed

text \<open>
  C5 (amended). Let a stop be stored under code \<open>c\<close>, and let a batch be upserted in which
  \<open>p\<close> is the input for \<open>c\<close> and every code is already stored. Afterwards the row of \<open>c\<close>
  has the name, latitude and longitude of \<open>p\<close>. If \<open>p\<close> carries no street (none, or the
  empty string), street and number are those stored before; if \<open>p\<close> carries a street, street
  and number are those of \<open>p\<close>. In both cases postal code, municipality, province, region
  and full address are those stored before, and the set of stored codes, hence the number
  of stops, is unchanged.
\<close>

theorem save_paradas_batch_preserves_address:
  assumes "tbl c = Some r" "p \<in> set ps" "p_codigo p = c"
    "\<forall>q\<in>set ps. p_codigo q = c \<longrightarrow> q = p" "set (map p_codigo ps) \<subseteq> dom tbl"
  shows "\<exists>r'. save_paradas_batch clock ps tbl c = Some r'
    \<and> nombre r' = p_nombre p \<and> latitud r' = p_latitud p \<and> longitud r' = p_longitud p
    \<and> (\<not> truthy (p_calle p) \<longrightarrow> calle r' = calle r \<and> numero r' = numero r)
    \<and> (truthy (p_calle p) \<longrightarrow> calle r' = p_calle p \<and> numero r' = p_numero p)
    \<and> codigo_postal r' = codigo_postal r \<and> municipio r' = municipio r
    \<and> provincia r' = provincia r \<and> comunidad_autonoma r' = comunidad_autonoma r
    \<and> direccion_completa r' = direccion_completa r
    \<and> dom (save_paradas_batch clock ps tbl) = dom tbl
    \<and> card (dom (save_paradas_batch clock ps tbl)) = card (dom tbl)"
proof -
  from save_paradas_loop_stored [where tbl = tbl and c = c and r = r and p = p and ps = ps
      and clock = clock and i = 0, OF assms(1,3,4)] assms(2)
  obtain r' where r': "save_paradas_batch clock ps tbl c = Some r'" "upserted p r r'"
    by (auto simp: save_paradas_batch_def)
  have d: "dom (save_paradas_batch clock ps tbl) = dom tbl"
    using assms(5) by (auto simp: save_paradas_batch_def dom_save_paradas_loop)
  from r'(2) have fields: "nombre r' = p_nombre p \<and> latitud r' = p_latitud p
    \<and> longitud r' = p_longitud p
    \<and> (\<not> truthy (p_calle p) \<longrightarrow> calle r' = calle r \<and> numero r' = numero r)
    \<and> (truthy (p_calle p) \<longrightarrow> calle r' = p_calle p \<and> numero r' = p_numero p)
    \<and> codigo_postal r' = codigo_postal r \<and> municipio r' = municipio r
    \<and> provincia r' = provincia r \<and> comunidad_autonoma r' = comunidad_autonoma r
    \<and> direccion_completa r' = direccion_completa r"
    by (simp add: upserted_def)
  from r'(1) fields d show ?thesis by simp
qed

theorem save_paradas_batch_preserves_address_witness:
  "[''43'' \<mapsto> parada_43] ''43'' = Some parada_43 \<and> sin_direccion \<in> set [sin_direccion]
   \<and> p_codigo sin_direccion = ''43''
   \<and> (\<exists>r'. save_paradas_batch (\<lambda>i. 1) [sin_direccion] [''43'' \<mapsto> parada_43] ''43'' = Some r'
        \<and> nombre r' = ''Recaredo (Puerta Carmona)'' \<and> calle r' = Some ''Calle Recaredo''
        \<and> codigo_postal r' = Some ''41003'')
   \<and> card (dom (save_paradas_batch (\<lambda>i. 1) [sin_direccion] [''43'' \<mapsto> parada_43])) = 1"
proof -
  have h: "[''43'' \<mapsto> parada_43] ''43'' = Some parada_43" "sin_direccion \<in> set [sin_direccion]"
    "p_codigo sin_direccion = ''43''"
    "\<forall>q\<in>set [sin_direccion]. p_codigo q = ''43'' \<longrightarrow> q = sin_direccion"
    "set (map p_codigo [sin_direccion]) \<subseteq> dom [''43'' \<mapsto> parada_43]"
    by (simp_all add: sin_direccion_def)
  from save_paradas_batch_preserves_address [where tbl = "[''43'' \<mapsto> parada_43]"
      and c = "''43''" and r = parada_43 and p = sin_direccion and ps = "[sin_direccion]"
      and clock = "\<lambda>i. 1", OF h]
  obtain r' where r': "save_paradas_batch (\<lambda>i. 1) [sin_direccion] [''43'' \<mapsto> parada_43] ''43'' = Some r'"
    "nombre r' = p_nombre sin_direccion"
    "\<not> truthy (p_calle sin_direccion) \<longrightarrow> calle r' = calle parada_43 \<and> numero r' = numero parada_43"
    "codigo_postal r' = codigo_postal parada_43"
    "card (dom (save_paradas_batch (\<lambda>i. 1) [sin_direccion] [''43'' \<mapsto> parada_43]))
      = card (dom [''43'' \<mapsto> parada_43])"
    by blast
  from r'(2,3,4) have "nombre r' = ''Recaredo (Puerta Carmona)'' \<and> calle r' = Some ''Calle Recaredo''
      \<and> codigo_postal r' = Some ''41003''"
    by (simp add: sin_direccion_def parada_43_def truthy_def)
  with r'(1) have ex: "\<exists>r'. save_paradas_batch (\<lambda>i. 1) [sin_direccion] [''43'' \<mapsto> parada_43] ''43'' = Some r'
        \<and> nombre r' = ''Recaredo (Puerta Carmona)'' \<and> calle r' = Some ''Calle Recaredo''
        \<and> codigo_postal r' = Some ''41003''"
    by blast
  from r'(5) have n: "card (dom (save_paradas_batch (\<lambda>i. 1) [sin_direccion] [''43'' \<mapsto> parada_43])) = 1"
    by simp
  from h(1,2,3) ex n show ?thesis by (intro conjI)
qed

text \<open>
  An input with a street for the stored stop 43: street and number are replaced, but the
  postal code, municipality, province, region and full address stay as they were stored,
  so not all address fields are overwritten.
\<close>

theorem save_paradas_batch_overwrite_counterexample:
  "truthy (p_calle con_direccion)
   \<and> map_option calle (save_paradas_batch (\<lambda>i. 1) [con_direccion] [''43'' \<mapsto> parada_43] ''43'')
       = Some (Some ''Calle Nueva'')
   \<and> map_option codigo_postal (save_paradas_batch (\<lambda>i. 1) [con_direccion] [''43'' \<mapsto> parada_43] ''43'')
       = Some (codigo_postal parada_43)
   \<and> map_option municipio (save_paradas_batch (\<lambda>i. 1) [con_direccion] [''43'' \<mapsto> parada_43] ''43'')
       = Some (municipio parada_43)
   \<and> map_option direccion_completa
        (save_paradas_batch (\<lambda>i. 1) [con_direccion] [''43'' \<mapsto> parada_43] ''43'')
       = Some (Some ''Calle Recaredo 1'')"
  by (simp add: save_paradas_batch_def upsert_parada_def con_direccion_def parada_43_def
      truthy_def Let_def)

section \<open>Retry and backoff\<close>

lemma range_3: "[0..<3] = [0, 1, 2]"
  by (simp add: upt_rec)

lemma get_with_retry_first:
  assumes "upstream 0 = Got r0" "status_code r0 \<notin> retryable"
  shows "get_with_retry upstream 3 st0 = (raise_for_status r0, \<lparr>gets = 1, sleeps = []\<rparr>)"
  using assms by (simp add: get_with_retry_def range_3 st0_def)

lemma get_with_retry_second:
  assumes "upstream 0 = Got r0" "status_code r0 \<in> retryable"
    "upstream 1 = Got r1" "status_code r1 \<notin> retryable"
  shows "get_with_retry upstream 3 st0 = (raise_for_status r1, \<lparr>gets = 2, sleeps = [2]\<rparr>)"
  using assms by (simp add: get_with_retry_def range_3 st0_def)

lemma get_with_retry_third:
  assumes "upstream 0 = Got r0" "status_code r0 \<in> retryable"
    "upstream 1 = Got r1" "status_code r1 \<in> retryable"
    "upstream 2 = Got r2" "status_code r2 \<notin> retryable"
  shows "get_with_retry upstream 3 st0 = (raise_for_status r2, \<lparr>gets = 3, sleeps = [2, 4]\<rparr>)"
proof -
  from assms(5) have "upstream (Suc (Suc 0)) = Got r2" by (simp add: numeral_2_eq_2)
  with assms show ?thesis
    by (simp add: get_with_retry_def range_3 st0_def)
qed

lemma get_with_retry_exhausted:
  assumes "upstream 0 = Got r0" "status_code r0 \<in> retryable"
    "upstream 1 = Got r1" "status_code r1 \<in> retryable"
    "upstream 2 = Got r2" "status_code r2 \<in> retryable"
  shows "get_with_retry upstream 3 st0
    = (Inl (HTTPStatusError (status_code r2)), \<lparr>gets = 3, sleeps = [2, 4, 8]\<rparr>)"
proof -
  from assms(6) have "\<not> (200 \<le> status_code r2 \<and> status_code r2 \<le> 299)"
    by (auto simp: retryable_def)
  then have "raise_for_status r2 = Inl (HTTPStatusError (status_code r2))"
    by (simp add: raise_for_status_def)
  moreover from assms(5) have "upstream (Suc (Suc 0)) = Got r2" by (simp add: numeral_2_eq_2)
  ultimately show ?thesis using assms
    by (simp add: get_with_retry_def range_3 st0_def)
qed

text \<open>
  C4. \<open>_get_with_retry\<close> with \<open>max_retries = 3\<close>, on a fresh client. While the responses
  have a status in \<open>{429, 500, 502, 503}\<close> it sleeps \<open>2 ^ (attempt + 1)\<close> seconds, that is 2,
  4 and 8 seconds after attempts 0, 1 and 2, and asks again, at most three requests in all.
  The first response with another status ends the call with no further request and no
  further sleep: an error status (4xx or 5xx) raises \<open>HTTPStatusError\<close> with that status,
  a 2xx status returns the response. Three responses with a retryable status raise
  \<open>HTTPStatusError\<close> with the status of the third. Against the statuses 429, 200 the call
  returns the second response after one sleep of 2 seconds.
\<close>

theorem get_with_retry_backoff:
  "(upstream 0 = Got r0 \<and> status_code r0 \<notin> retryable
      \<longrightarrow> snd (get_with_retry upstream 3 st0) = \<lparr>gets = 1, sleeps = []\<rparr>
        \<and> (400 \<le> status_code r0 \<and> status_code r0 \<le> 599
              \<longrightarrow> fst (get_with_retry upstream 3 st0) = Inl (HTTPStatusError (status_code r0)))
        \<and> (200 \<le> status_code r0 \<and> status_code r0 \<le> 299
              \<longrightarrow> fst (get_with_retry upstream 3 st0) = Inr r0))
   \<and> (upstream 0 = Got r0 \<and> status_code r0 \<in> retryable
        \<and> upstream 1 = Got r1 \<and> status_code r1 \<notin> retryable
      \<longrightarrow> snd (get_with_retry upstream 3 st0) = \<lparr>gets = 2, sleeps = [2 ^ (0 + 1)]\<rparr>
        \<and> (400 \<le> status_code r1 \<and> status_code r1 \<le> 599
              \<longrightarrow> fst (get_with_retry upstream 3 st0) = Inl (HTTPStatusError (status_code r1)))
        \<and> (200 \<le> status_code r1 \<and> status_code r1 \<le> 299
              \<longrightarrow> fst (get_with_retry upstream 3 st0) = Inr r1))
   \<and> (upstream 0 = Got r0 \<and> status_code r0 \<in> retryable
        \<and> upstream 1 = Got r1 \<and> status_code r1 \<in> retryable
        \<and> upstream 2 = Got r2 \<and> status_code r2 \<notin> retryable
      \<longrightarrow> snd (get_with_retry upstream 3 st0) = \<lparr>gets = 3, sleeps = [2 ^ (0 + 1), 2 ^ (1 + 1)]\<rparr>
        \<and> (400 \<le> status_code r2 \<and> status_code r2 \<le> 599
              \<longrightarrow> fst (get_with_retry upstream 3 st0) = Inl (HTTPStatusError (status_code r2)))
        \<and> (200 \<le> status_code r2 \<and> status_code r2 \<le> 299
              \<longrightarrow> fst (get_with_retry upstream 3 st0) = Inr r2))
   \<and> (upstream 0 = Got r0 \<and> status_code r0 \<in> retryable
        \<and> upstream 1 = Got r1 \<and> status_code r1 \<in> retryable
        \<and> upstream 2 = Got r2 \<and> status_code r2 \<in> retryable
      \<longrightarrow> get_with_retry upstream 3 st0
          = (Inl (HTTPStatusError (status_code r2)),
             \<lparr>gets = 3, sleeps = [2 ^ (0 + 1), 2 ^ (1 + 1), 2 ^ (2 + 1)]\<rparr>))
   \<and> [2 ^ (0 + 1), 2 ^ (1 + 1), 2 ^ (2 + 1)] = [2, 4, 8 :: nat]
   \<and> get_with_retry upstream_429_200 3 st0
       = (Inr \<lparr>status_code = 200, body = ''ok''\<rparr>, \<lparr>gets = 2, sleeps = [2]\<rparr>)"
proof -
  have c1: "upstream 0 = Got r0 \<and> status_code r0 \<notin> retryable
      \<longrightarrow> snd (get_with_retry upstream 3 st0) = \<lparr>gets = 1, sleeps = []\<rparr>
        \<and> (400 \<le> status_code r0 \<and> status_code r0 \<le> 599
              \<longrightarrow> fst (get_with_retry upstream 3 st0) = Inl (HTTPStatusError (status_code r0)))
        \<and> (200 \<le> status_code r0 \<and> status_code r0 \<le> 299
              \<longrightarrow> fst (get_with_retry upstream 3 st0) = Inr r0)"
    using get_with_retry_first [of upstream r0] by (simp add: raise_for_status_def)
  have c2: "upstream 0 = Got r0 \<and> status_code r0 \<in> retryable
        \<and> upstream 1 = Got r1 \<and> status_code r1 \<notin> retryable
      \<longrightarrow> snd (get_with_retry upstream 3 st0) = \<lparr>gets = 2, sleeps = [2 ^ (0 + 1)]\<rparr>
        \<and> (400 \<le> status_code r1 \<and> status_code r1 \<le> 599
              \<longrightarrow> fst (get_with_retry upstream 3 st0) = Inl (HTTPStatusError (status_code r1)))
        \<and> (200 \<le> status_code r1 \<and> status_code r1 \<le> 299
              \<longrightarrow> fst (get_with_retry upstream 3 st0) = Inr r1)"
    using get_with_retry_second [of upstream r0 r1] by (simp add: raise_for_status_def)
  have c3: "upstream 0 = Got r0 \<and> status_code r0 \<in> retryable
        \<and> upstream 1 = Got r1 \<and> status_code r1 \<in> retryable
        \<and> upstream 2 = Got r2 \<and> status_code r2 \<notin> retryable
      \<longrightarrow> snd (get_with_retry upstream 3 st0) = \<lparr>gets = 3, sleeps = [2 ^ (0 + 1), 2 ^ (1 + 1)]\<rparr>
        \<and> (400 \<le> status_code r2 \<and> status_code r2 \<le> 599
              \<longrightarrow> fst (get_with_retry upstream 3 st0) = Inl (HTTPStatusError (status_code r2)))
        \<and> (200 \<le> status_code r2 \<and> status_code r2 \<le> 299
              \<longrightarrow> fst (get_with_retry upstream 3 st0) = Inr r2)"
    using get_with_retry_third [of upstream r0 r1 r2] by (simp add: raise_for_status_def)
  have c4: "upstream 0 = Got r0 \<and> status_code r0 \<in> retryable
        \<and> upstream 1 = Got r1 \<and> status_code r1 \<in> retryable
        \<and> upstream 2 = Got r2 \<and> status_code r2 \<in> retryable
      \<longrightarrow> get_with_retry upstream 3 st0
          = (Inl (HTTPStatusError (status_code r2)),
             \<lparr>gets = 3, sleeps = [2 ^ (0 + 1), 2 ^ (1 + 1), 2 ^ (2 + 1)]\<rparr>)"
    using get_with_retry_exhausted [of upstream r0 r1 r2] by simp
  have secs: "[2 ^ (0 + 1), 2 ^ (1 + 1), 2 ^ (2 + 1)] = [2, 4, 8 :: nat]" by simp
  have ex: "get_with_retry upstream_429_200 3 st0
       = (Inr \<lparr>status_code = 200, body = ''ok''\<rparr>, \<lparr>gets = 2, sleeps = [2]\<rparr>)"
    using get_with_retry_second [of upstream_429_200 "\<lparr>status_code = 429, body = ''''\<rparr>"
        "\<lparr>status_code = 200, body = ''ok''\<rparr>"]
    by (simp add: upstream_429_200_def retryable_def raise_for_status_def)
  from c1 c2 c3 c4 secs ex show ?thesis by (intro conjI)
qed

theorem get_with_retry_backoff_witness:
  "upstream_503_503_404 0 = Got \<lparr>status_code = 503, body = ''''\<rparr>
   \<and> upstream_503_503_404 1 = Got \<lparr>status_code = 503, body = ''''\<rparr>
   \<and> upstream_503_503_404 2 = Got \<lparr>status_code = 404, body = ''''\<rparr>
   \<and> (503 :: nat) \<in> retryable \<and> (404 :: nat) \<notin> retryable
   \<and> snd (get_with_retry upstream_503_503_404 3 st0) = \<lparr>gets = 3, sleeps = [2, 4]\<rparr>
   \<and> fst (get_with_retry upstream_503_503_404 3 st0) = Inl (HTTPStatusError 404)"
proof -
  have h: "upstream_503_503_404 0 = Got \<lparr>status_code = 503, body = ''''\<rparr>"
    "upstream_503_503_404 1 = Got \<lparr>status_code = 503, body = ''''\<rparr>"
    "upstream_503_503_404 2 = Got \<lparr>status_code = 404, body = ''''\<rparr>"
    "(503 :: nat) \<in> retryable" "(404 :: nat) \<notin> retryable"
    by (simp_all add: upstream_503_503_404_def retryable_def)
  have pre: "upstream_503_503_404 0 = Got \<lparr>status_code = 503, body = ''''\<rparr>
      \<and> status_code \<lparr>status_code = 503, body = ''''\<rparr> \<in> retryable
      \<and> upstream_503_503_404 1 = Got \<lparr>status_code = 503, body = ''''\<rparr>
      \<and> status_code \<lparr>status_code = 503, body = ''''\<rparr> \<in> retryable
      \<and> upstream_503_503_404 2 = Got \<lparr>status_code = 404, body = ''''\<rparr>
      \<and> status_code \<lparr>status_code = 404, body = ''''\<rparr> \<notin> retryable"
    using h by simp
  note t = get_with_retry_backoff [of upstream_503_503_404 "\<lparr>status_code = 503, body = ''''\<rparr>"
      "\<lparr>status_code = 503, body = ''''\<rparr>" "\<lparr>status_code = 404, body = ''''\<rparr>",
      THEN conjunct2, THEN conjunct2, THEN conjunct1, THEN mp, OF pre]
  from t have "snd (get_with_retry upstream_503_503_404 3 st0) = \<lparr>gets = 3, sleeps = [2, 4]\<rparr>"
    by simp
  moreover from t have "fst (get_with_retry upstream_503_503_404 3 st0) = Inl (HTTPStatusError 404)"
    by simp
  ultimately show ?thesis using h by (intro conjI)
qed

section \<open>Replacing the membership table\<close>

lemma insert_relaciones_committed:
  "committed (snd (insert_relaciones fails i rs c)) = committed c"
  by (induction rs arbitrary: i c) (auto simp: insert_or_ignore_def split: sum.splits)

lemma insert_relaciones_ok:
  assumes "\<forall>r\<in>set rs. \<not> isl (fila r)" "\<forall>j. i \<le> j \<and> j < i + length rs \<longrightarrow> \<not> fails j"
  shows "insert_relaciones fails i rs c = (None, fold insert_or_ignore (map (projr \<circ> fila) rs) c)"
  using assms
proof (induction rs arbitrary: i c)
  case Nil
  then show ?case by simp
next
  case (Cons r rs)
  from Cons.prems obtain row where row: "fila r = Inr row"
    by (cases "fila r") auto
  from Cons.prems have nf: "\<not> fails i" by simp
  have rest: "\<forall>j. Suc i \<le> j \<and> j < Suc i + length rs \<longrightarrow> \<not> fails j"
    using Cons.prems(2) by auto
  from Cons.prems(1) have ok: "\<forall>r\<in>set rs. \<not> isl (fila r)" by simp
  show ?case using Cons.IH [OF ok rest] row nf by simp
qed

lemma insert_relaciones_fail:
  assumes "(\<exists>r\<in>set rs. isl (fila r)) \<or> (\<exists>j. i \<le> j \<and> j < i + length rs \<and> fails j)"
  shows "\<exists>e c'. insert_relaciones fails i rs c = (Some e, c')"
  using assms
proof (induction rs arbitrary: i c)
  case Nil
  then show ?case by auto
next
  case (Cons r rs)
  show ?case
  proof (cases "fila r")
    case (Inl e)
    then show ?thesis by simp
  next
    case (Inr row)
    show ?thesis
    proof (cases "fails i")
      case True
      with Inr show ?thesis by simp
    next
      case False
      have "(\<exists>r\<in>set rs. isl (fila r)) \<or> (\<exists>j. Suc i \<le> j \<and> j < Suc i + length rs \<and> fails j)"
      proof -
        from Cons.prems consider (a) "\<exists>r'\<in>set (r # rs). isl (fila r')"
          | (b) j where "i \<le> j" "j < i + length (r # rs)" "fails j" by blast
        then show ?thesis
        proof cases
          case a
          with Inr show ?thesis by auto
        next
          case b
          with False have "j \<noteq> i" by auto
          with b have "Suc i \<le> j \<and> j < Suc i + length rs \<and> fails j" by simp
          then show ?thesis by blast
        qed
      qed
      from Cons.IH [OF this] Inr False show ?thesis by simp
    qed
  qed
qed

lemma fold_insert_committed:
  "committed (fold insert_or_ignore rows c) = committed c"
  by (induction rows arbitrary: c) (auto simp: insert_or_ignore_def)

lemma fold_insert_keys:
  "set (map pk (working (fold insert_or_ignore rows c))) = set (map pk (working c)) \<union> set (map pk rows)"
  by (induction rows arbitrary: c) (auto simp: insert_or_ignore_def)

lemma fold_insert_rows:
  "set (working (fold insert_or_ignore rows c)) \<subseteq> set (working c) \<union> set rows"
proof (induction rows arbitrary: c)
  case Nil
  then show ?case by simp
next
  case (Cons row rows)
  have "set (working (insert_or_ignore row c)) \<subseteq> set (working c) \<union> {row}"
    by (auto simp: insert_or_ignore_def)
  with Cons.IH [of "insert_or_ignore row c"] show ?case by auto
qed

lemma fold_insert_distinct:
  "distinct (map pk (working c)) \<Longrightarrow> distinct (map pk (working (fold insert_or_ignore rows c)))"
  by (induction rows arbitrary: c) (auto simp: insert_or_ignore_def)

lemma fold_insert_fresh:
  assumes "distinct (map pk rows)" "set (map pk rows) \<inter> set (map pk (working c)) = {}"
  shows "working (fold insert_or_ignore rows c) = working c @ rows"
  using assms
proof (induction rows arbitrary: c)
  case Nil
  then show ?case by simp
next
  case (Cons row rows)
  from Cons.prems have new: "pk row \<notin> set (map pk (working c))" by auto
  then have step: "insert_or_ignore row c = c\<lparr>working := working c @ [row]\<rparr>"
    by (simp add: insert_or_ignore_def)
  from Cons.prems have d: "distinct (map pk rows)" by simp
  from Cons.prems have
    "set (map pk rows) \<inter> set (map pk (working (c\<lparr>working := working c @ [row]\<rparr>))) = {}"
    by auto
  from Cons.IH [OF d this] step show ?case by simp
qed

lemma save_paradas_lineas_batch_nonempty:
  assumes "relaciones \<noteq> []"
  shows "save_paradas_lineas_batch fails relaciones db =
     (if fails 0 then (Inl OperationalError, db, [ERROR])
      else case insert_relaciones fails 1 relaciones (delete_paradas_lineas (connect db)) of
             (Some e, c') \<Rightarrow> (Inl e, committed c', [ERROR])
           | (None, c') \<Rightarrow>
               if fails (Suc (length relaciones)) then (Inl OperationalError, committed c', [ERROR])
               else (Inr (), working c', []))"
  using assms
  by (simp add: save_paradas_lineas_batch_def Let_def rollback_def commit_def connect_def
      split: prod.splits option.splits)

text \<open>
  C2. For a non-empty input, membership replacement is all or nothing. If every input
  dictionary has its four keys and the engine raises on no statement (the \<open>DELETE\<close>, the
  inserts, the commit), the call succeeds and the table afterwards holds input rows only,
  with exactly the primary keys of the input and each key once; every previously stored
  row that is not among the input rows is gone, among them all rows of stops that the input
  does not mention; and where the input has no repeated primary key the table is the input.
  Otherwise the call raises and the table afterwards is the table before the call.
\<close>

theorem membership_replace_all_or_nothing:
  assumes "relaciones \<noteq> []"
  shows
  "((\<forall>r\<in>set relaciones. \<not> isl (fila r)) \<and> (\<forall>i \<le> Suc (length relaciones). \<not> fails i)
      \<longrightarrow> (\<exists>db'. save_paradas_lineas_batch fails relaciones db = (Inr (), db', [])
            \<and> set db' \<subseteq> set (map (projr \<circ> fila) relaciones)
            \<and> set (map pk db') = set (map (pk \<circ> projr \<circ> fila) relaciones)
            \<and> distinct (map pk db')
            \<and> (\<forall>old\<in>set db. old \<notin> set (map (projr \<circ> fila) relaciones) \<longrightarrow> old \<notin> set db')
            \<and> (\<forall>old\<in>set db. parada_codigo old \<notin> set (map (parada_codigo \<circ> projr \<circ> fila) relaciones)
                  \<longrightarrow> old \<notin> set db')
            \<and> (distinct (map (pk \<circ> projr \<circ> fila) relaciones)
                  \<longrightarrow> db' = map (projr \<circ> fila) relaciones)))
   \<and> (\<not> ((\<forall>r\<in>set relaciones. \<not> isl (fila r)) \<and> (\<forall>i \<le> Suc (length relaciones). \<not> fails i))
      \<longrightarrow> (\<exists>e. save_paradas_lineas_batch fails relaciones db = (Inl e, db, [ERROR])))"
proof (intro conjI impI)
  let ?rows = "map (projr \<circ> fila) relaciones"
  let ?start = "delete_paradas_lineas (connect db)"
  let ?final = "fold insert_or_ignore ?rows ?start"
  assume ok: "(\<forall>r\<in>set relaciones. \<not> isl (fila r)) \<and> (\<forall>i \<le> Suc (length relaciones). \<not> fails i)"
  then have ok1: "\<forall>r\<in>set relaciones. \<not> isl (fila r)" by (rule conjunct1)
  from ok have ok2: "\<forall>i \<le> Suc (length relaciones). \<not> fails i" by (rule conjunct2)
  have mid: "\<forall>j. 1 \<le> j \<and> j < 1 + length relaciones \<longrightarrow> \<not> fails j"
  proof (intro allI impI)
    fix j
    assume "1 \<le> j \<and> j < 1 + length relaciones"
    then have "j \<le> Suc (length relaciones)" by simp
    with ok2 [rule_format, of j] show "\<not> fails j" by simp
  qed
  have run: "insert_relaciones fails 1 relaciones ?start = (None, ?final)"
    by (rule insert_relaciones_ok [OF ok1 mid])
  have f0: "\<not> fails 0" using ok2 [rule_format, of 0] by simp
  have fl: "\<not> fails (Suc (length relaciones))"
    using ok2 [rule_format, of "Suc (length relaciones)"] by simp
  from run f0 fl have res: "save_paradas_lineas_batch fails relaciones db = (Inr (), working ?final, [])"
    by (simp add: save_paradas_lineas_batch_nonempty [OF assms])
  have w0: "working ?start = []" by (simp add: delete_paradas_lineas_def connect_def)
  have sub: "set (working ?final) \<subseteq> set ?rows"
    using fold_insert_rows [of ?rows ?start] w0 by simp
  have keys: "set (map pk (working ?final)) = set (map (pk \<circ> projr \<circ> fila) relaciones)"
    using fold_insert_keys [of ?rows ?start] w0 by simp
  have dist: "distinct (map pk (working ?final))"
    using fold_insert_distinct [of ?start ?rows] w0 by simp
  have gone: "\<forall>old\<in>set db. old \<notin> set ?rows \<longrightarrow> old \<notin> set (working ?final)"
    using sub by blast
  have gone_stop: "\<forall>old\<in>set db. parada_codigo old \<notin> set (map (parada_codigo \<circ> projr \<circ> fila) relaciones)
      \<longrightarrow> old \<notin> set (working ?final)"
  proof (intro ballI impI)
    fix old :: relacion
    assume "parada_codigo old \<notin> set (map (parada_codigo \<circ> projr \<circ> fila) relaciones)"
    then have "old \<notin> set ?rows" by (auto simp: image_iff)
    with sub show "old \<notin> set (working ?final)" by blast
  qed
  have exact: "distinct (map (pk \<circ> projr \<circ> fila) relaciones) \<longrightarrow> working ?final = ?rows"
  proof
    assume "distinct (map (pk \<circ> projr \<circ> fila) relaciones)"
    then have "distinct (map pk ?rows)" by (simp add: comp_assoc)
    from fold_insert_fresh [OF this, of ?start] w0 show "working ?final = ?rows" by simp
  qed
  show "\<exists>db'. save_paradas_lineas_batch fails relaciones db = (Inr (), db', [])
      \<and> set db' \<subseteq> set ?rows
      \<and> set (map pk db') = set (map (pk \<circ> projr \<circ> fila) relaciones)
      \<and> distinct (map pk db')
      \<and> (\<forall>old\<in>set db. old \<notin> set ?rows \<longrightarrow> old \<notin> set db')
      \<and> (\<forall>old\<in>set db. parada_codigo old \<notin> set (map (parada_codigo \<circ> projr \<circ> fila) relaciones)
            \<longrightarrow> old \<notin> set db')
      \<and> (distinct (map (pk \<circ> projr \<circ> fila) relaciones) \<longrightarrow> db' = ?rows)"
    by (rule exI [of _ "working ?final"], intro conjI)
      (rule res sub keys dist gone gone_stop exact)+
next
  let ?start = "delete_paradas_lineas (connect db)"
  assume bad: "\<not> ((\<forall>r\<in>set relaciones. \<not> isl (fila r)) \<and> (\<forall>i \<le> Suc (length relaciones). \<not> fails i))"
  show "\<exists>e. save_paradas_lineas_batch fails relaciones db = (Inl e, db, [ERROR])"
  proof (cases "fails 0")
    case True
    then show ?thesis
      by (simp add: save_paradas_lineas_batch_nonempty [OF assms])
  next
    case f0: False
    have kept: "committed (rollback c') = db" if "committed c' = db" for c' :: conn
      using that by (simp add: rollback_def)
    have c0: "committed ?start = db" by (simp add: delete_paradas_lineas_def connect_def)
    show ?thesis
    proof (cases "(\<exists>r\<in>set relaciones. isl (fila r))
        \<or> (\<exists>j. 1 \<le> j \<and> j < 1 + length relaciones \<and> fails j)")
      case True
      from insert_relaciones_fail [OF this, of ?start]
      obtain e c' where run: "insert_relaciones fails 1 relaciones ?start = (Some e, c')" by blast
      have "committed c' = db"
        using insert_relaciones_committed [of fails 1 relaciones ?start] run c0 by simp
      with run f0 show ?thesis
        by (simp add: save_paradas_lineas_batch_nonempty [OF assms])
    next
      case False
      then have ok: "\<forall>r\<in>set relaciones. \<not> isl (fila r)"
        "\<forall>j. 1 \<le> j \<and> j < 1 + length relaciones \<longrightarrow> \<not> fails j" by blast+
      from insert_relaciones_ok [OF this, of ?start]
      obtain c' where run: "insert_relaciones fails 1 relaciones ?start = (None, c')" by blast
      have cc: "committed c' = db"
        using insert_relaciones_committed [of fails 1 relaciones ?start] run c0 by simp
      have last: "fails (Suc (length relaciones))"
      proof (rule ccontr)
        assume nl: "\<not> fails (Suc (length relaciones))"
        have "\<not> fails i" if "i \<le> Suc (length relaciones)" for i
        proof (cases "i = 0")
          case True
          with f0 show ?thesis by simp
        next
          case nz: False
          show ?thesis
          proof (cases "i = Suc (length relaciones)")
            case True
            with nl show ?thesis by simp
          next
            case False
            with nz that have "1 \<le> i \<and> i < 1 + length relaciones" by simp
            with ok(2) show ?thesis by blast
          qed
        qed
        with ok(1) bad show False by blast
      qed
      with run f0 cc show ?thesis
        by (simp add: save_paradas_lineas_batch_nonempty [OF assms])
    qed
  qed
qed

theorem membership_replace_all_or_nothing_witness:
  "[demo_nueva] \<noteq> [] \<and> [demo_nueva, demo_rota] \<noteq> []
   \<and> fila demo_nueva = Inr \<lparr>parada_codigo = ''44'', linea_numero = ''C4'', sentido = 2, orden = 0\<rparr>
   \<and> save_paradas_lineas_batch (\<lambda>n. False) [demo_nueva] demo_db
       = (Inr (), [\<lparr>parada_codigo = ''44'', linea_numero = ''C4'', sentido = 2, orden = 0\<rparr>], [])
   \<and> fila demo_rota = Inl (KeyError ''orden'')
   \<and> (\<exists>e. save_paradas_lineas_batch (\<lambda>n. False) [demo_nueva, demo_rota] demo_db
         = (Inl e, demo_db, [ERROR]))"
proof -
  have ne: "[demo_nueva] \<noteq> []" "[demo_nueva, demo_rota] \<noteq> []" by simp_all
  have ok1: "\<forall>r\<in>set [demo_nueva]. \<not> isl (fila r)"
    by (simp add: fila_def demo_nueva_def)
  have ok2: "\<forall>i \<le> Suc (length [demo_nueva]). \<not> (\<lambda>n. False) i"
    by simp
  note ok = conjI [OF ok1 ok2]
  have bad: "\<not> ((\<forall>r\<in>set [demo_nueva, demo_rota]. \<not> isl (fila r))
      \<and> (\<forall>i \<le> Suc (length [demo_nueva, demo_rota]). \<not> (\<lambda>n. False) i))"
    by (simp add: fila_def demo_rota_def)
  have rows: "map (projr \<circ> fila) [demo_nueva]
      = [\<lparr>parada_codigo = ''44'', linea_numero = ''C4'', sentido = 2, orden = 0\<rparr>]"
    "distinct (map (pk \<circ> projr \<circ> fila) [demo_nueva])"
    by (simp_all add: fila_def demo_nueva_def)
  from membership_replace_all_or_nothing [OF ne(1), of "\<lambda>n. False" demo_db, THEN conjunct1,
      THEN mp, OF ok]
  obtain db' where run: "save_paradas_lineas_batch (\<lambda>n. False) [demo_nueva] demo_db = (Inr (), db', [])"
    and eq: "distinct (map (pk \<circ> projr \<circ> fila) [demo_nueva])
      \<longrightarrow> db' = map (projr \<circ> fila) [demo_nueva]"
    by blast
  from eq rows have "db' = [\<lparr>parada_codigo = ''44'', linea_numero = ''C4'', sentido = 2, orden = 0\<rparr>]"
    by simp
  with run have good: "save_paradas_lineas_batch (\<lambda>n. False) [demo_nueva] demo_db
       = (Inr (), [\<lparr>parada_codigo = ''44'', linea_numero = ''C4'', sentido = 2, orden = 0\<rparr>], [])"
    by simp
  from membership_replace_all_or_nothing [OF ne(2), of "\<lambda>n. False" demo_db, THEN conjunct2,
      THEN mp, OF bad]
  have unchanged: "\<exists>e. save_paradas_lineas_batch (\<lambda>n. False) [demo_nueva, demo_rota] demo_db
         = (Inl e, demo_db, [ERROR])" .
  have f1: "fila demo_nueva = Inr \<lparr>parada_codigo = ''44'', linea_numero = ''C4'', sentido = 2, orden = 0\<rparr>"
    by (simp add: fila_def demo_nueva_def)
  have f2: "fila demo_rota = Inl (KeyError ''orden'')"
    by (simp add: fila_def demo_rota_def)
  from ne f1 good f2 unchanged show ?thesis by (intro conjI)
qed

text \<open>
  C3. With an empty input the call returns at once, having logged a warning: no connection
  is opened and the table afterwards is the table before, whatever the engine would do.
\<close>

theorem membership_replace_empty_is_noop:
  "save_paradas_lineas_batch fails [] db = (Inr (), db, [WARNING])"
  by (simp add: save_paradas_lineas_batch_def)

section \<open>Cache reads and writes\<close>

lemma get_cached_tiempos_expired:
  assumes "tc code = Some row" "timedelta_minutes 1 < now - cached_at row"
  shows "get_cached_tiempos json_loads now code tc = (None, tc)"
  using assms by (simp add: get_cached_tiempos_def CACHE_TTL_MINUTES_def)

lemma get_cached_tiempos_fresh:
  assumes "json_loads (json_dumps v) = Some v" "now - t0 < timedelta_minutes 1"
  shows "get_cached_tiempos json_loads now code (save_tiempos_cache json_dumps t0 code v tc)
    = (Some v, save_tiempos_cache json_dumps t0 code v tc)"
  using assms by (simp add: get_cached_tiempos_def save_tiempos_cache_def CACHE_TTL_MINUTES_def)

lemma get_cached_direccion_expired:
  assumes "dc (py_round_ndigits lat 4, py_round_ndigits lon 4) = Some row"
    "timedelta_days 30 \<le> now - cached_at row"
  shows "get_cached_direccion json_loads now lat lon dc = (None, dc)"
  using assms by (simp add: get_cached_direccion_def CACHE_DIRECCIONES_TTL_DIAS_def Let_def)

lemma get_cached_direccion_fresh:
  assumes "json_loads (json_dumps v) = Some v" "now - t0 < timedelta_days 30"
    "py_round_ndigits lat' 4 = py_round_ndigits lat 4"
    "py_round_ndigits lon' 4 = py_round_ndigits lon 4"
  shows "get_cached_direccion json_loads now lat' lon' (save_direccion_cache json_dumps t0 lat lon v dc)
    = (Some v, save_direccion_cache json_dumps t0 lat lon v dc)"
  using assms
  by (simp add: get_cached_direccion_def save_direccion_cache_def CACHE_DIRECCIONES_TTL_DIAS_def Let_def)

text \<open>
  C6. The TTL is applied when the cache is read. An arrival entry older than one minute is a
  miss and the table is returned as it was (the row stays); an arrival entry written 30
  seconds earlier is returned with the payload that was written. An address entry written 29
  days earlier is returned; one written 31 days earlier is a miss, and again the row stays.
  The JSON codec is a parameter: the payload comes back unchanged where \<open>json_loads\<close>
  inverts \<open>json_dumps\<close> on it.
\<close>

theorem cache_ttl_applied_at_read:
  fixes json_loads :: "string \<Rightarrow> 'v option" and json_dumps :: "'v \<Rightarrow> string"
    and json_loads' :: "string \<Rightarrow> 'w option" and json_dumps' :: "'w \<Rightarrow> string"
  shows
  "(tc code = Some row \<and> timedelta_minutes 1 < now - cached_at row
      \<longrightarrow> get_cached_tiempos json_loads now code tc = (None, tc))
   \<and> (json_loads (json_dumps v) = Some v
      \<longrightarrow> get_cached_tiempos json_loads (t0 + timedelta_seconds 30) code
            (save_tiempos_cache json_dumps t0 code v tc)
          = (Some v, save_tiempos_cache json_dumps t0 code v tc))
   \<and> (json_loads' (json_dumps' w) = Some w
      \<longrightarrow> get_cached_direccion json_loads' (t0 + timedelta_days 29) lat lon
            (save_direccion_cache json_dumps' t0 lat lon w dc)
          = (Some w, save_direccion_cache json_dumps' t0 lat lon w dc))
   \<and> get_cached_direccion json_loads' (t0 + timedelta_days 31) lat lon
          (save_direccion_cache json_dumps' t0 lat lon w dc)
        = (None, save_direccion_cache json_dumps' t0 lat lon w dc)"
proof (intro conjI impI)
  assume "tc code = Some row \<and> timedelta_minutes 1 < now - cached_at row"
  then show "get_cached_tiempos json_loads now code tc = (None, tc)"
    by (simp add: get_cached_tiempos_expired)
next
  assume "json_loads (json_dumps v) = Some v"
  then show "get_cached_tiempos json_loads (t0 + timedelta_seconds 30) code
      (save_tiempos_cache json_dumps t0 code v tc)
    = (Some v, save_tiempos_cache json_dumps t0 code v tc)"
    by (rule get_cached_tiempos_fresh) (simp add: timedelta_seconds_def timedelta_minutes_def)
next
  assume "json_loads' (json_dumps' w) = Some w"
  then show "get_cached_direccion json_loads' (t0 + timedelta_days 29) lat lon
      (save_direccion_cache json_dumps' t0 lat lon w dc)
    = (Some w, save_direccion_cache json_dumps' t0 lat lon w dc)"
    by (rule get_cached_direccion_fresh) (simp_all add: timedelta_days_def)
next
  show "get_cached_direccion json_loads' (t0 + timedelta_days 31) lat lon
      (save_direccion_cache json_dumps' t0 lat lon w dc)
    = (None, save_direccion_cache json_dumps' t0 lat lon w dc)"
    by (rule get_cached_direccion_expired [where row = "\<lparr>payload_json = json_dumps' w, cached_at = t0\<rparr>"])
       (simp_all add: save_direccion_cache_def Let_def timedelta_days_def)
qed

theorem cache_ttl_applied_at_read_witness:
  "demo_tiempos_cache ''43'' = Some \<lparr>payload_json = ''{}'', cached_at = 0\<rparr>
   \<and> timedelta_minutes 1 < 60000001 - cached_at \<lparr>payload_json = ''{}'', cached_at = 0\<rparr>
   \<and> get_cached_tiempos Some 60000001 ''43'' demo_tiempos_cache = (None, demo_tiempos_cache)
   \<and> Some (id ''[]'') = Some ''[]''
   \<and> fst (get_cached_tiempos Some (0 + timedelta_seconds 30) ''43''
        (save_tiempos_cache id 0 ''43'' ''[]'' demo_tiempos_cache)) = Some ''[]''
   \<and> fst (get_cached_direccion Some (0 + timedelta_days 29) 37.38961 (-5.98427)
        (save_direccion_cache id 0 37.38961 (-5.98427) ''[]'' Map.empty)) = Some ''[]''"
  using cache_ttl_applied_at_read [where tc = demo_tiempos_cache and code = "''43''"
      and row = "\<lparr>payload_json = ''{}'', cached_at = 0\<rparr>" and now = 60000001
      and json_loads = Some and json_dumps = id and v = "''[]''" and ?t0.0 = 0
      and json_loads' = Some and json_dumps' = id and w = "''[]''"
      and lat = "37.38961" and lon = "- 5.98427" and dc = Map.empty]
  by (simp add: demo_tiempos_cache_def timedelta_minutes_def)


lemma py_round_near: "\<bar>of_int (py_round x) - x\<bar> \<le> 1/2"
proof -
  define f where "f = \<lfloor>x\<rfloor>"
  have "of_int f \<le> x" "x < of_int f + 1" unfolding f_def by linarith+
  then show ?thesis unfolding py_round_def Let_def f_def [symmetric] by (auto simp: abs_if)
qed

lemma py_round_ndigits_near: "\<bar>py_round_ndigits x 4 - x\<bar> \<le> 5 / 10 ^ 5"
proof -
  have "\<bar>of_int (py_round (x * 10 ^ 4)) - x * 10 ^ 4\<bar> \<le> 1/2"
    by (rule py_round_near)
  then have "\<bar>of_int (py_round (x * 10 ^ 4)) / 10 ^ 4 - x\<bar> \<le> (1/2) / 10 ^ 4"
    by (simp add: field_simps abs_if split: if_splits)
  then show ?thesis by (simp add: py_round_ndigits_def)
qed

text \<open>
  C8 (amended). The address cache is keyed by the coordinates rounded to 4 decimals: the
  write stores under the rounded pair, which is a whole multiple of \<open>0.0001\<close> within
  \<open>0.00005\<close> of the input; the read depends on the coordinates only through the same
  rounded pair, so a read at coordinates with the same rounding sees the entry and a read at
  coordinates with a different rounding does not. The pairs \<open>(37.38961, -5.98427)\<close> and
  \<open>(37.38959, -5.98424)\<close> share the rounded latitude \<open>37.3896\<close> but their longitudes
  round to \<open>-5.9843\<close> and \<open>-5.9842\<close>.
\<close>

theorem direccion_cache_key_rounding:
  fixes json_loads :: "string \<Rightarrow> 'v option" and json_dumps :: "'v \<Rightarrow> string"
  shows
  "save_direccion_cache json_dumps t0 lat lon v dc
     = dc((py_round_ndigits lat 4, py_round_ndigits lon 4)
          \<mapsto> \<lparr>payload_json = json_dumps v, cached_at = t0\<rparr>)
   \<and> (\<exists>i j :: int. py_round_ndigits lat 4 = of_int i / 10 ^ 4 \<and> py_round_ndigits lon 4 = of_int j / 10 ^ 4)
   \<and> \<bar>py_round_ndigits lat 4 - lat\<bar> \<le> 5 / 10 ^ 5 \<and> \<bar>py_round_ndigits lon 4 - lon\<bar> \<le> 5 / 10 ^ 5
   \<and> (py_round_ndigits lat' 4 = py_round_ndigits lat 4 \<and> py_round_ndigits lon' 4 = py_round_ndigits lon 4
        \<longrightarrow> get_cached_direccion json_loads now lat' lon' dc = get_cached_direccion json_loads now lat lon dc)
   \<and> (py_round_ndigits lat' 4 = py_round_ndigits lat 4 \<and> py_round_ndigits lon' 4 = py_round_ndigits lon 4
        \<and> json_loads (json_dumps v) = Some v \<and> now - t0 < timedelta_days 30
        \<longrightarrow> fst (get_cached_direccion json_loads now lat' lon'
              (save_direccion_cache json_dumps t0 lat lon v dc)) = Some v)
   \<and> ((py_round_ndigits lat' 4, py_round_ndigits lon' 4) \<noteq> (py_round_ndigits lat 4, py_round_ndigits lon 4)
        \<and> dc (py_round_ndigits lat' 4, py_round_ndigits lon' 4) = None
        \<longrightarrow> fst (get_cached_direccion json_loads now lat' lon'
              (save_direccion_cache json_dumps t0 lat lon v dc)) = None)
   \<and> py_round_ndigits 37.38961 4 = 37.3896 \<and> py_round_ndigits 37.38959 4 = 37.3896
   \<and> py_round_ndigits (- 5.98427) 4 = - 5.9843 \<and> py_round_ndigits (- 5.98424) 4 = - 5.9842"
proof -
  have wr: "save_direccion_cache json_dumps t0 lat lon v dc
     = dc((py_round_ndigits lat 4, py_round_ndigits lon 4)
          \<mapsto> \<lparr>payload_json = json_dumps v, cached_at = t0\<rparr>)"
    by (simp add: save_direccion_cache_def Let_def)
  have grid: "\<exists>i j :: int. py_round_ndigits lat 4 = of_int i / 10 ^ 4
      \<and> py_round_ndigits lon 4 = of_int j / 10 ^ 4"
    unfolding py_round_ndigits_def by blast
  have same: "get_cached_direccion json_loads now lat' lon' dc = get_cached_direccion json_loads now lat lon dc"
    if "py_round_ndigits lat' 4 = py_round_ndigits lat 4 \<and> py_round_ndigits lon' 4 = py_round_ndigits lon 4"
    using that by (simp add: get_cached_direccion_def)
  have hit: "fst (get_cached_direccion json_loads now lat' lon'
        (save_direccion_cache json_dumps t0 lat lon v dc)) = Some v"
    if "py_round_ndigits lat' 4 = py_round_ndigits lat 4 \<and> py_round_ndigits lon' 4 = py_round_ndigits lon 4
        \<and> json_loads (json_dumps v) = Some v \<and> now - t0 < timedelta_days 30"
    using that by (simp add: get_cached_direccion_fresh)
  have miss: "fst (get_cached_direccion json_loads now lat' lon'
        (save_direccion_cache json_dumps t0 lat lon v dc)) = None"
    if "(py_round_ndigits lat' 4, py_round_ndigits lon' 4) \<noteq> (py_round_ndigits lat 4, py_round_ndigits lon 4)
        \<and> dc (py_round_ndigits lat' 4, py_round_ndigits lon' 4) = None"
    using that by (auto simp: get_cached_direccion_def save_direccion_cache_def Let_def)
  have ex: "py_round_ndigits 37.38961 4 = 37.3896" "py_round_ndigits 37.38959 4 = 37.3896"
    "py_round_ndigits (- 5.98427) 4 = - 5.9843" "py_round_ndigits (- 5.98424) 4 = - 5.9842"
    by (simp_all add: py_round_ndigits_def py_round_def Let_def)
  from wr grid same hit miss ex py_round_ndigits_near [of lat] py_round_ndigits_near [of lon]
  show ?thesis by blast
qed

theorem direccion_cache_key_rounding_witness:
  "py_round_ndigits 37.38959 4 = py_round_ndigits 37.38961 4
   \<and> py_round_ndigits (- 5.98426) 4 = py_round_ndigits (- 5.98427) 4
   \<and> Some (id ''Calle Sierpes'') = Some ''Calle Sierpes'' \<and> (86400000000 :: int) - 0 < timedelta_days 30
   \<and> fst (get_cached_direccion Some 86400000000 37.38959 (- 5.98426)
        (save_direccion_cache id 0 37.38961 (- 5.98427) ''Calle Sierpes'' Map.empty))
      = Some ''Calle Sierpes''"
proof -
  have h: "py_round_ndigits 37.38959 4 = py_round_ndigits 37.38961 4
     \<and> py_round_ndigits (- 5.98426) 4 = py_round_ndigits (- 5.98427) 4
     \<and> Some (id ''Calle Sierpes'') = Some ''Calle Sierpes''
     \<and> (86400000000 :: int) - 0 < timedelta_days 30"
    by (simp add: py_round_ndigits_def py_round_def Let_def timedelta_days_def)
  with direccion_cache_key_rounding [where lat = "37.38961" and lon = "- 5.98427"
      and lat' = "37.38959" and lon' = "- 5.98426" and json_loads = Some and json_dumps = id
      and v = "''Calle Sierpes''" and now = 86400000000 and ?t0.0 = 0 and dc = Map.empty]
  show ?thesis by blast
qed

text \<open>
  The two coordinate pairs of the specification's example have different keys: an address
  written for the first is not found by a read at the second.
\<close>

theorem direccion_cache_spec_example_counterexample:
  "(py_round_ndigits 37.38961 4, py_round_ndigits (- 5.98427) 4)
     \<noteq> (py_round_ndigits 37.38959 4, py_round_ndigits (- 5.98424) 4)
   \<and> fst (get_cached_direccion Some 1 37.38959 (- 5.98424)
        (save_direccion_cache id 0 37.38961 (- 5.98427) ''Calle Sierpes'' Map.empty)) = None"
  by (simp add: get_cached_direccion_def save_direccion_cache_def py_round_ndigits_def
      py_round_def Let_def)


section \<open>Directions and order of the arrivals\<close>

lemma fold_setdefault:
  "fold (\<lambda>r result. result(linea_numero r \<mapsto>
            (case result (linea_numero r) of None \<Rightarrow> [] | Some l \<Rightarrow> l) @ [sentido r])) rows m label
   = (let l = map sentido (filter (\<lambda>r. linea_numero r = label) rows)
      in case m label of
           None \<Rightarrow> if l = [] then None else Some l
         | Some l0 \<Rightarrow> Some (l0 @ l))"
proof (induction rows arbitrary: m)
  case Nil
  then show ?case by (simp split: option.splits)
next
  case (Cons r rows)
  let ?step = "\<lambda>r result. result(linea_numero r \<mapsto>
      (case result (linea_numero r) of None \<Rightarrow> [] | Some l \<Rightarrow> l) @ [sentido r])"
  let ?rest = "map sentido (filter (\<lambda>r. linea_numero r = label) rows)"
  have "fold ?step (r # rows) m label = fold ?step rows (?step r m) label"
    by (simp only: fold_simps comp_apply)
  also have "\<dots> = (case ?step r m label of
                       None \<Rightarrow> if ?rest = [] then None else Some ?rest
                     | Some l0 \<Rightarrow> Some (l0 @ ?rest))"
    by (simp only: Cons.IH Let_def)
  also have "\<dots> = (let l = map sentido (filter (\<lambda>r. linea_numero r = label) (r # rows))
      in case m label of
           None \<Rightarrow> if l = [] then None else Some l
         | Some l0 \<Rightarrow> Some (l0 @ l))"
    by (cases "linea_numero r = label") (simp_all add: Let_def split: option.splits)
  finally show ?case .
qed

lemma sentidos_of_label:
  "(case get_sentidos_for_parada db cod label of None \<Rightarrow> [] | Some l \<Rightarrow> l)
   = map sentido (sort_key (\<lambda>r. (linea_numero r, sentido r))
       (filter (\<lambda>r. parada_codigo r = cod \<and> linea_numero r = label) db))"
proof -
  have "filter (\<lambda>r. linea_numero r = label)
          (sort_key (\<lambda>r. (linea_numero r, sentido r)) (filter (\<lambda>r. parada_codigo r = cod) db))
        = sort_key (\<lambda>r. (linea_numero r, sentido r))
            (filter (\<lambda>r. parada_codigo r = cod \<and> linea_numero r = label) db)"
    by (simp add: filter_sort)
  then show ?thesis
    by (simp add: get_sentidos_for_parada_def fold_setdefault Let_def)
qed

lemma set_sentidos_of_label:
  "set (case get_sentidos_for_parada db cod label of None \<Rightarrow> [] | Some l \<Rightarrow> l)
   = recorded_sentidos db cod label"
  by (simp add: sentidos_of_label recorded_sentidos_def)

lemma distinct_sentidos_of_label:
  assumes "distinct (map pk db)"
  shows "distinct (case get_sentidos_for_parada db cod label of None \<Rightarrow> [] | Some l \<Rightarrow> l)"
proof -
  let ?rows = "filter (\<lambda>r. parada_codigo r = cod \<and> linea_numero r = label) db"
  let ?sorted = "sort_key (\<lambda>r. (linea_numero r, sentido r)) ?rows"
  from assms have "distinct (map pk ?rows)" by (rule distinct_map_filter)
  moreover have "map pk ?rows = map (\<lambda>r. (cod, label, sentido r)) ?rows"
    by (simp add: pk_def)
  ultimately have "distinct (map (\<lambda>r. (cod, label, sentido r)) ?rows)" by simp
  then have "distinct (map (\<lambda>s. (cod, label, s)) (map sentido ?rows))" by (simp add: comp_def)
  then have "distinct (map sentido ?rows)" by (simp only: distinct_map)
  moreover have "mset (map sentido ?sorted) = mset (map sentido ?rows)" by simp
  ultimately have "distinct (map sentido ?sorted)"
    using mset_eq_imp_distinct_iff by blast
  then show ?thesis by (simp add: sentidos_of_label)
qed

lemma resolver_sentido_single:
  assumes "distinct (map pk db)" "recorded_sentidos db cod label = {d}"
  shows "resolver_sentido (get_sentidos_for_parada db cod) label = Some d"
proof -
  define l where "l = (case get_sentidos_for_parada db cod label of None \<Rightarrow> [] | Some l \<Rightarrow> l)"
  have s: "set l = {d}" using assms(2) unfolding l_def by (simp only: set_sentidos_of_label)
  have "distinct l" unfolding l_def using assms(1) by (rule distinct_sentidos_of_label)
  then have "card (set l) = length l" by (rule distinct_card)
  with s have len: "length l = 1" by simp
  then obtain x where x: "l = [x]" by (cases l) auto
  with s have "x = d" by simp
  with x have "(if length l = 1 then Some (hd l) else None) = Some d" by simp
  then show ?thesis unfolding resolver_sentido_def Let_def l_def .
qed

lemma resolver_sentido_unknown:
  assumes "\<nexists>d. recorded_sentidos db cod label = {d}"
  shows "resolver_sentido (get_sentidos_for_parada db cod) label = None"
proof -
  define l where "l = (case get_sentidos_for_parada db cod label of None \<Rightarrow> [] | Some l \<Rightarrow> l)"
  have "length l \<noteq> 1"
  proof
    assume "length l = 1"
    then obtain x where "l = [x]" by (cases l) auto
    then have "set l = {x}" by simp
    then have "recorded_sentidos db cod label = {x}"
      unfolding l_def by (simp only: set_sentidos_of_label)
    with assms show False by blast
  qed
  then have "(if length l = 1 then Some (hd l) else None) = None" by simp
  then show ?thesis unfolding resolver_sentido_def Let_def l_def .
qed

lemma tiempos_de_linea_sentido:
  "t \<in> set (tiempos_de_linea sm l)
     \<Longrightarrow> linea t = lc_labelLinea l \<and> t_sentido t = resolver_sentido sm (lc_labelLinea l)"
  by (auto simp: tiempos_de_linea_def Let_def)

lemma map_minutos:
  "map tiempo_minutos (concat (map (tiempos_de_linea sm) (lineasCoincidentes result)))
   = minutos_de result"
  by (simp add: minutos_de_def tiempos_de_linea_def Let_def map_concat comp_def)

lemma take_sort_key_soonest:
  fixes f :: "'a \<Rightarrow> int"
  shows "sorted (map f (take n (sort_key f xs)))
    \<and> length (take n (sort_key f xs)) = min n (length xs)
    \<and> mset (map f (take n (sort_key f xs))) + mset (map f (drop n (sort_key f xs)))
        = mset (map f xs)
    \<and> (\<forall>x \<in> set (take n (sort_key f xs)). \<forall>y \<in> set (drop n (sort_key f xs)). f x \<le> f y)"
proof -
  let ?s = "sort_key f xs"
  have srt: "sorted (map f ?s)" by simp
  then have "sorted (take n (map f ?s))" by (rule sorted_wrt_take)
  then have a: "sorted (map f (take n ?s))" by (simp add: take_map)
  have b: "length (take n ?s) = min n (length xs)" by (simp add: min.commute)
  have "mset (map f (take n ?s)) + mset (map f (drop n ?s)) = mset (map f (take n ?s @ drop n ?s))"
    by (simp only: map_append mset_append)
  then have c: "mset (map f (take n ?s)) + mset (map f (drop n ?s)) = mset (map f xs)"
    by simp
  from srt have "sorted (map f (take n ?s) @ map f (drop n ?s))"
    by (simp only: map_append [symmetric] append_take_drop_id)
  then have d: "\<forall>x \<in> set (take n ?s). \<forall>y \<in> set (drop n ?s). f x \<le> f y"
    by (auto simp: sorted_append)
  from a b c d show ?thesis by blast
qed

lemma get_tiempos_parada_fresh:
  assumes "force_refresh \<or> fst (get_cached_tiempos json_loads now cod (cache s)) = None"
    "get_with_retry upstream 3 (client s) = (Inr resp, h)" "decode (body resp) = Some result"
  shows "fst (get_tiempos_parada decode json_dumps json_loads upstream now now_w cod force_refresh s)
    = Inr \<lparr>rd_parada = cod, rd_nombre = descripcion result,
           rd_latitud = map_option (\<lambda>(la, lo). of_int la / 1000000) (posicion result),
           rd_longitud = map_option (\<lambda>(la, lo). of_int lo / 1000000) (posicion result),
           rd_tiempos = take 10 (sort_key tiempo_minutos
             (concat (map (tiempos_de_linea (get_sentidos_for_parada (memberships s) cod))
                        (lineasCoincidentes result))))\<rparr>"
proof (cases force_refresh)
  case True
  with assms(2,3) show ?thesis
    by (simp add: get_tiempos_parada_def Let_def)
next
  case False
  obtain c tc1 where r: "get_cached_tiempos json_loads now cod (cache s) = (c, tc1)"
    by (cases "get_cached_tiempos json_loads now cod (cache s)")
  with assms(1) False have "c = None" by simp
  with r False assms(2,3) show ?thesis
    by (simp add: get_tiempos_parada_def Let_def)
qed

text \<open>
  C7. A retrieval of the arrival times of a stop that is not served from the cache, whose
  request succeeds and whose body decodes, returns an answer in which every arrival of a
  line carries the direction recorded for that line at that stop in the membership table
  if exactly one is recorded, and no direction if none or more than one is recorded. The
  arrivals are in ascending order of minutes until arrival, they are \<open>min 10 n\<close> of the
  \<open>n\<close> upstream estimates, and no estimate left out is sooner than one returned. The
  membership table has each primary key once.
\<close>

theorem get_tiempos_parada_sentido_sorted_capped:
  assumes "force_refresh \<or> fst (get_cached_tiempos json_loads now cod (cache s)) = None"
    "get_with_retry upstream 3 (client s) = (Inr resp, h)" "decode (body resp) = Some result"
    "distinct (map pk (memberships s))"
  shows "\<exists>res s'.
    get_tiempos_parada decode json_dumps json_loads upstream now now_w cod force_refresh s
      = (Inr res, s')
    \<and> (\<forall>t \<in> set (rd_tiempos res).
          (\<forall>d. recorded_sentidos (memberships s) cod (linea t) = {d} \<longrightarrow> t_sentido t = Some d)
          \<and> ((\<nexists>d. recorded_sentidos (memberships s) cod (linea t) = {d}) \<longrightarrow> t_sentido t = None))
    \<and> sorted (map tiempo_minutos (rd_tiempos res))
    \<and> length (rd_tiempos res) = min 10 (length (minutos_de result))
    \<and> (\<exists>later. mset (map tiempo_minutos (rd_tiempos res)) + later = mset (minutos_de result)
          \<and> (\<forall>x \<in># mset (map tiempo_minutos (rd_tiempos res)). \<forall>y \<in># later. x \<le> y))"
proof -
  define sm where "sm = get_sentidos_for_parada (memberships s) cod"
  define ts where "ts = concat (map (tiempos_de_linea sm) (lineasCoincidentes result))"
  define res where "res = \<lparr>rd_parada = cod, rd_nombre = descripcion result,
           rd_latitud = map_option (\<lambda>(la, lo). of_int la / 1000000) (posicion result),
           rd_longitud = map_option (\<lambda>(la, lo). of_int lo / 1000000) (posicion result),
           rd_tiempos = take 10 (sort_key tiempo_minutos ts)\<rparr>"
  have out: "rd_tiempos res = take 10 (sort_key tiempo_minutos ts)" by (simp add: res_def)
  have "fst (get_tiempos_parada decode json_dumps json_loads upstream now now_w cod force_refresh s)
      = Inr res"
    unfolding res_def ts_def sm_def
    by (rule get_tiempos_parada_fresh [where decode = decode and resp = resp and result = result
          and h = h, OF assms(1,2,3)])
  then obtain s' where run:
    "get_tiempos_parada decode json_dumps json_loads upstream now now_w cod force_refresh s
      = (Inr res, s')"
    by (cases "get_tiempos_parada decode json_dumps json_loads upstream now now_w cod force_refresh s")
      simp
  have mins: "map tiempo_minutos ts = minutos_de result"
    unfolding ts_def by (rule map_minutos)
  have dirs: "\<forall>t \<in> set (rd_tiempos res).
      (\<forall>d. recorded_sentidos (memberships s) cod (linea t) = {d} \<longrightarrow> t_sentido t = Some d)
      \<and> ((\<nexists>d. recorded_sentidos (memberships s) cod (linea t) = {d}) \<longrightarrow> t_sentido t = None)"
  proof
    fix t
    assume "t \<in> set (rd_tiempos res)"
    then have "t \<in> set (sort_key tiempo_minutos ts)" unfolding out by (rule in_set_takeD)
    then have "t \<in> set ts" by simp
    then obtain l where "t \<in> set (tiempos_de_linea sm l)" by (auto simp: ts_def)
    then have t: "t_sentido t = resolver_sentido sm (linea t)"
      using tiempos_de_linea_sentido [of t sm l] by simp
    show "(\<forall>d. recorded_sentidos (memberships s) cod (linea t) = {d} \<longrightarrow> t_sentido t = Some d)
      \<and> ((\<nexists>d. recorded_sentidos (memberships s) cod (linea t) = {d}) \<longrightarrow> t_sentido t = None)"
      unfolding t sm_def
      using resolver_sentido_single [OF assms(4)] resolver_sentido_unknown by blast
  qed
  note soon = take_sort_key_soonest [of tiempo_minutos 10 ts]
  from soon have srt: "sorted (map tiempo_minutos (rd_tiempos res))" unfolding out by blast
  from soon have "length (rd_tiempos res) = min 10 (length ts)" unfolding out by blast
  moreover have "length ts = length (minutos_de result)"
    using mins by (metis length_map)
  ultimately have len: "length (rd_tiempos res) = min 10 (length (minutos_de result))" by simp
  let ?later = "mset (map tiempo_minutos (drop 10 (sort_key tiempo_minutos ts)))"
  from soon mins have sum: "mset (map tiempo_minutos (rd_tiempos res)) + ?later = mset (minutos_de result)"
    unfolding out by simp
  from soon have "\<forall>x \<in> set (rd_tiempos res). \<forall>y \<in> set (drop 10 (sort_key tiempo_minutos ts)).
      tiempo_minutos x \<le> tiempo_minutos y"
    unfolding out by blast
  then have least: "\<forall>x \<in># mset (map tiempo_minutos (rd_tiempos res)). \<forall>y \<in># ?later. x \<le> y"
    by auto
  from sum least have "\<exists>later. mset (map tiempo_minutos (rd_tiempos res)) + later = mset (minutos_de result)
      \<and> (\<forall>x \<in># mset (map tiempo_minutos (rd_tiempos res)). \<forall>y \<in># later. x \<le> y)"
    by blast
  with run dirs srt len show ?thesis by blast
qed

lemma respuesta_43_example:
  "map (\<lambda>t. (linea t, tiempo_minutos t, t_sentido t))
     (rd_tiempos (projr (fst (get_tiempos_parada (\<lambda>b. Some respuesta_43) (\<lambda>v. ''{}'') (\<lambda>j. None)
        upstream_200 0 0 ''43'' True servicio_43))))
   = [(''01'', 1, None), (''C4'', 2, Some 1), (''01'', 5, None)]"
  by code_simp

theorem get_tiempos_parada_sentido_sorted_capped_witness:
  "get_with_retry upstream_200 3 (client servicio_43)
     = (Inr \<lparr>status_code = 200, body = ''{}''\<rparr>, \<lparr>gets = 1, sleeps = []\<rparr>)
   \<and> distinct (map pk (memberships servicio_43))
   \<and> (\<exists>res s'. get_tiempos_parada (\<lambda>b. Some respuesta_43) (\<lambda>v. ''{}'') (\<lambda>j. None)
          upstream_200 0 0 ''43'' True servicio_43 = (Inr res, s')
        \<and> sorted (map tiempo_minutos (rd_tiempos res))
        \<and> length (rd_tiempos res) = 3)"
proof -
  have fetch: "get_with_retry upstream_200 3 (client servicio_43)
     = (Inr \<lparr>status_code = 200, body = ''{}''\<rparr>, \<lparr>gets = 1, sleeps = []\<rparr>)"
    by (simp add: get_with_retry_def upt_rec servicio_43_def st0_def upstream_200_def
        retryable_def raise_for_status_def)
  have inv: "distinct (map pk (memberships servicio_43))"
    by (simp add: servicio_43_def demo_db_def pk_def)
  have miss: "True \<or> fst (get_cached_tiempos (\<lambda>j. None) 0 ''43'' (cache servicio_43)) = None"
    by simp
  have dec: "(\<lambda>b. Some respuesta_43) (body \<lparr>status_code = 200, body = ''{}''\<rparr>) = Some respuesta_43"
    by simp
  have n: "min 10 (length (minutos_de respuesta_43)) = 3"
    by (simp add: minutos_de_def respuesta_43_def)
  from get_tiempos_parada_sentido_sorted_capped [where decode = "\<lambda>b. Some respuesta_43"
      and json_dumps = "\<lambda>v. ''{}''" and json_loads = "\<lambda>j. None" and now = 0 and now_w = 0
      and cod = "''43''" and force_refresh = True and s = servicio_43 and upstream = upstream_200
      and resp = "\<lparr>status_code = 200, body = ''{}''\<rparr>" and h = "\<lparr>gets = 1, sleeps = []\<rparr>"
      and result = respuesta_43, OF miss fetch dec inv] n
  have "\<exists>res s'. get_tiempos_parada (\<lambda>b. Some respuesta_43) (\<lambda>v. ''{}'') (\<lambda>j. None)
          upstream_200 0 0 ''43'' True servicio_43 = (Inr res, s')
        \<and> sorted (map tiempo_minutos (rd_tiempos res))
        \<and> length (rd_tiempos res) = 3"
    by auto
  with fetch inv show ?thesis by (intro conjI)
qed


text \<open>
  C9. For bearings \<open>b1\<close>, \<open>b2\<close> in \<open>[0, 360)\<close> the value of \<open>bearing_diff b1 b2\<close> lies in
  \<open>[0, 180]\<close> and is the minimal angular difference: it is attained by \<open>b1 - b2\<close> shifted by
  some whole number of turns, and no shift by whole turns gives a smaller absolute value.
  In particular \<open>bearing_diff 350 10 = 20\<close> and \<open>bearing_diff 0 180 = 180\<close>.
\<close>

theorem bearing_diff_minimal:
  assumes "0 \<le> b1" "b1 < 360" "0 \<le> b2" "b2 < 360"
  shows "0 \<le> bearing_diff b1 b2 \<and> bearing_diff b1 b2 \<le> 180
    \<and> (\<exists>k::int. bearing_diff b1 b2 = \<bar>b1 - b2 + 360 * of_int k\<bar>)
    \<and> (\<forall>k::int. bearing_diff b1 b2 \<le> \<bar>b1 - b2 + 360 * of_int k\<bar>)
    \<and> bearing_diff 350 10 = 20 \<and> bearing_diff 0 180 = 180"
proof -
  let ?d = "b1 - b2"
  have range: "- 360 < ?d" "?d < 360" using assms by linarith+
  have lo: "0 \<le> bearing_diff b1 b2" and hi: "bearing_diff b1 b2 \<le> 180"
    using range unfolding bearing_diff_def Let_def by linarith+
  have attained: "\<exists>k::int. bearing_diff b1 b2 = \<bar>?d + 360 * of_int k\<bar>"
  proof (cases "\<bar>?d\<bar> \<le> 360 - \<bar>?d\<bar>")
    case True
    then have "bearing_diff b1 b2 = \<bar>?d + 360 * of_int (0::int)\<bar>"
      by (simp add: bearing_diff_def Let_def min_def)
    then show ?thesis by blast
  next
    case False
    show ?thesis
    proof (cases "0 \<le> ?d")
      case True
      with False range have "bearing_diff b1 b2 = \<bar>?d + 360 * of_int (- 1::int)\<bar>"
        unfolding bearing_diff_def Let_def by (simp, linarith?)
      then show ?thesis by blast
    next
      case neg: False
      with False range have "bearing_diff b1 b2 = \<bar>?d + 360 * of_int (1::int)\<bar>"
        unfolding bearing_diff_def Let_def by (simp, linarith?)
      then show ?thesis by blast
    qed
  qed
  have least: "bearing_diff b1 b2 \<le> \<bar>?d + 360 * of_int k\<bar>" for k :: int
  proof -
    consider "k = 0" | "1 \<le> k" | "k \<le> - 1" by linarith
    then show ?thesis
    proof cases
      case 1
      then show ?thesis by (simp add: bearing_diff_def Let_def)
    next
      case 2
      then have "(1::real) \<le> of_int k" by simp
      then have "?d + 360 \<le> ?d + 360 * of_int k" by simp
      moreover have "bearing_diff b1 b2 \<le> ?d + 360"
        using range unfolding bearing_diff_def Let_def by linarith
      ultimately show ?thesis by linarith
    next
      case 3
      then have "of_int k \<le> (- 1::real)" by (metis of_int_le_iff of_int_minus of_int_1)
      then have "?d + 360 * of_int k \<le> ?d - 360" by simp
      moreover have "bearing_diff b1 b2 \<le> 360 - ?d"
        using range unfolding bearing_diff_def Let_def by linarith
      ultimately show ?thesis by linarith
    qed
  qed
  have ex: "bearing_diff 350 10 = 20" "bearing_diff 0 180 = 180"
    by (simp_all add: bearing_diff_def Let_def)
  from lo hi attained least ex show ?thesis by blast
qed

theorem bearing_diff_minimal_witness:
  "(0::real) \<le> 350 \<and> (350::real) < 360 \<and> (0::real) \<le> 10 \<and> (10::real) < 360
    \<and> bearing_diff 350 10 \<le> 180 \<and> bearing_diff 350 10 = 20"
  using bearing_diff_minimal [of 350 10] by simp


end
